theory Spec2Isabelle
  imports Main
begin

section \<open>The relational store\<close>

text \<open>
  The post repository (\<^verbatim>\<open>src/posts/repository.ts\<close>) reads and writes four tables
  through the query builder: posts, categories, tags and the join table of posts and
  tags. A table is the list of its rows, in insertion order. The column \<^verbatim>\<open>id\<close> of
  a post is written \<open>post_id\<close>, since \<open>id\<close> is the identity function of HOL; the
  columns of the category and tag tables carry the table's name for the same reason.
\<close>

text \<open>
  \<^verbatim>\<open>columns\<close> (line 15): the columns of the post table but
  \<^verbatim>\<open>normalizedTitle\<close> and \<^verbatim>\<open>categoryId\<close>. The column \<open>published\<close> is
  nullable (\<^verbatim>\<open>updatePost\<close> may set it to \<^verbatim>\<open>null\<close>).
\<close>

record post_columns =
  post_id :: string
  title :: string
  slug :: string
  content :: string
  published :: "bool option"
  createdAt :: nat
  updatedAt :: nat

text \<open>What \<^verbatim>\<open>.returning({ ...columns, categoryId })\<close> yields for a post row.\<close>

record returned_post = post_columns +
  categoryId :: "string option"

text \<open>A stored row of the post table.\<close>

record post_row = returned_post +
  normalizedTitle :: string

text \<open>
  The \<^verbatim>\<open>data\<close> object the repository hands back for one post. \<open>category\<close> is the
  resolved category name or \<^verbatim>\<open>null\<close>; \<open>tags\<close> is \<open>None\<close> when the object has no
  property \<^verbatim>\<open>tags\<close> at all, and \<open>Some names\<close> when it has one.
\<close>

record post_data = returned_post +
  category :: "string option"
  tags :: "string list option"

record category_row =
  category_id :: string
  category_name :: string

record tag_row =
  tag_id :: string
  tag_name :: string

record post_tag_row =
  postId :: string
  tagId :: string

text \<open>
  One element of what \<^verbatim>\<open>findMany\<close> returns in \<^verbatim>\<open>getPosts\<close>: the selected
  columns, the name of the related category or \<^verbatim>\<open>null\<close>, and for every association
  row of the post the name of its tag (\<open>None\<close> if the tag row is missing).
\<close>

record listed_post = post_columns +
  category_rel :: "string option"
  postsToTags_rel :: "string option list"

record db =
  postTable :: "post_row list"
  categoryTable :: "category_row list"
  tagTable :: "tag_row list"
  postsToTags :: "post_tag_row list"

text \<open>
  A value thrown inside the repository: the engine's \<^verbatim>\<open>DatabaseError\<close> with its
  SQLSTATE in \<^verbatim>\<open>code\<close>, or a plain JavaScript error, whose \<^verbatim>\<open>code\<close> is
  \<^verbatim>\<open>undefined\<close>.
\<close>

datatype thrown = Thrown (err_code: "string option")

text \<open>
  What the repository uses and \<^verbatim>\<open>src/\<close> does not hold, taken as parameters:
  \<open>normalizeString\<close> (\<^verbatim>\<open>lib/index.js\<close>) and \<open>slug_fn\<close> (the package
  \<^verbatim>\<open>slug\<close>), the identifier \<open>new_id\<close> and the time \<open>now\<close> the store assigns
  to the row an insert creates, and \<open>fault\<close>: the failure, if any, that the engine
  raises at the \<open>k\<close>-th statement of the operation instead of executing it (a lost
  connection, or \<^verbatim>\<open>22P02\<close> for text that the column type of an identifier does
  not accept; the column types are declared in \<^verbatim>\<open>lib/database/schema.js\<close>).
  The statements of an operation are numbered in the order of the source text.
\<close>

record env =
  normalizeString :: "string \<Rightarrow> string"
  slug_fn :: "string \<Rightarrow> string"
  new_id :: string
  now :: nat
  fault :: "nat \<Rightarrow> thrown option"

definition stmt :: "env \<Rightarrow> nat \<Rightarrow> thrown + 'a \<Rightarrow> thrown + 'a" where
  "stmt e k r = (case fault e k of Some t \<Rightarrow> Inl t | None \<Rightarrow> r)"

text \<open>The closed sets of error codes of the four operations that return one.\<close>

datatype error_code =
  post_not_found | cannot_get_post
  | duplicate_post_title | category_not_found | cannot_create_post
  | cannot_update_post | cannot_delete_post

record 'd result =
  data :: "'d option"
  errorCode :: "error_code option"

section \<open>getPostById\<close>

text \<open>
  The object \<^verbatim>\<open>{ ...post, category: c, tags: ts }\<close> built from a returned post row;
  \<open>ts = None\<close> is the object literal that names no \<^verbatim>\<open>tags\<close>.
\<close>

definition post_with :: "returned_post \<Rightarrow> string option \<Rightarrow> string list option \<Rightarrow> post_data" where
  "post_with post c ts = returned_post.extend post (post_data.fields c ts)"

text \<open>
  \<^verbatim>\<open>select ... from post left join category on post.categoryId = category.id
  where post.id = $1 limit 1\<close>: a post row with no matching category row is kept, with
  \<^verbatim>\<open>null\<close> for the category name.
\<close>

definition left_join_category :: "db \<Rightarrow> post_row \<Rightarrow> post_data list" where
  "left_join_category s p =
     (case filter (\<lambda>c. categoryId p = Some (category_id c)) (categoryTable s) of
        [] \<Rightarrow> [post_with (returned_post.truncate p) None None]
      | c # cs \<Rightarrow> map (\<lambda>c. post_with (returned_post.truncate p) (Some (category_name c)) None)
                  (c # cs))"

definition select_post_by_id :: "db \<Rightarrow> string \<Rightarrow> thrown + post_data list" where
  "select_post_by_id s i =
     Inr (take 1 (concat (map (left_join_category s)
       (filter (\<lambda>p. post_id p = i) (postTable s)))))"

text \<open>
  \<^verbatim>\<open>select tag.name from tag inner join posts_to_tags on posts_to_tags.tagId = tag.id
  where posts_to_tags.postId = $1\<close>
\<close>

definition select_tag_names :: "db \<Rightarrow> string \<Rightarrow> thrown + string list" where
  "select_tag_names s i =
     Inr (concat (map (\<lambda>t. map (\<lambda>r. tag_name t)
       (filter (\<lambda>r. tagId r = tag_id t \<and> postId r = i) (postsToTags s))) (tagTable s)))"

text \<open>The body of the \<^verbatim>\<open>try\<close> block: \<open>Inl\<close> is a value thrown out of it.\<close>

definition getPostById_try :: "env \<Rightarrow> string \<Rightarrow> db \<Rightarrow> thrown + post_data" where
  "getPostById_try e i s =
     (case stmt e 0 (select_post_by_id s i) of
        Inl t \<Rightarrow> Inl t
      | Inr posts \<Rightarrow>
          (case posts of
             [] \<Rightarrow> Inl (Thrown (Some ''22P02''))
           | post # _ \<Rightarrow>
               (case stmt e 1 (select_tag_names s (post_id post)) of
                  Inl t \<Rightarrow> Inl t
                | Inr names \<Rightarrow> Inr (post\<lparr>tags := Some names\<rparr>))))"

text \<open>The \<^verbatim>\<open>switch (error.code)\<close> of the \<^verbatim>\<open>catch\<close> block.\<close>

definition getPostById_errorCode :: "thrown \<Rightarrow> error_code" where
  "getPostById_errorCode t =
     (if err_code t = Some ''22P02'' then post_not_found else cannot_get_post)"

definition getPostById :: "env \<Rightarrow> string \<Rightarrow> db \<Rightarrow> post_data result" where
  "getPostById e i s =
     (case getPostById_try e i s of
        Inr d \<Rightarrow> \<lparr>data = Some d, errorCode = None\<rparr>
      | Inl t \<Rightarrow> \<lparr>data = None, errorCode = Some (getPostById_errorCode t)\<rparr>)"

section \<open>Statements shared by createPost and updatePost\<close>

text \<open>\<^verbatim>\<open>select name from category where id = $1\<close>\<close>

definition select_category_name :: "db \<Rightarrow> string \<Rightarrow> thrown + string list" where
  "select_category_name s c =
     Inr (map category_name (filter (\<lambda>r. category_id r = c) (categoryTable s)))"

text \<open>\<^verbatim>\<open>select id, name from tag where id in ($1, ...)\<close>\<close>

definition select_tags_in :: "db \<Rightarrow> string list \<Rightarrow> thrown + tag_row list" where
  "select_tags_in s tagIds = Inr (filter (\<lambda>t. tag_id t \<in> set tagIds) (tagTable s))"

text \<open>
  \<^verbatim>\<open>insert into posts_to_tags (postId, tagId) values (...), ...\<close>. The rows the
  repository inserts name a post row and tag rows it has just read, so the foreign keys
  of the join table hold; no uniqueness constraint of the join table is modelled, so
  that a statement about duplicate rows is a statement about the repository's code.
\<close>

definition insert_posts_to_tags :: "db \<Rightarrow> post_tag_row list \<Rightarrow> thrown + db" where
  "insert_posts_to_tags s rows = Inr (s\<lparr>postsToTags := postsToTags s @ rows\<rparr>)"

text \<open>
  Lines 149-160 and 235-246: select the tags among \<open>tagIds\<close> that exist, and insert
  one association row for each. The result is \<^verbatim>\<open>selectedTags\<close>. The query builder's
  \<^verbatim>\<open>values\<close> throws a plain \<^verbatim>\<open>Error\<close> (no \<^verbatim>\<open>code\<close>) when it is given an empty
  array, before any SQL is sent: an \<^verbatim>\<open>INSERT\<close> of no row has no SQL text. The state
  comes back with a thrown value too: the repository opens no transaction, so what
  earlier statements wrote stays written.
\<close>

definition associate_tags ::
  "env \<Rightarrow> returned_post \<Rightarrow> string list \<Rightarrow> db \<Rightarrow> (thrown + tag_row list) \<times> db" where
  "associate_tags e post tagIds s =
     (case stmt e 2 (select_tags_in s tagIds) of
        Inl t \<Rightarrow> (Inl t, s)
      | Inr selectedTags \<Rightarrow>
          if selectedTags = [] then (Inl (Thrown None), s)
          else
            (case stmt e 3 (insert_posts_to_tags s
                    (map (\<lambda>tag. \<lparr>postId = post_id post, tagId = tag_id tag\<rparr>) selectedTags)) of
               Inl t \<Rightarrow> (Inl t, s)
             | Inr s' \<Rightarrow> (Inr selectedTags, s')))"

section \<open>createPost\<close>

text \<open>
  Modelled from the spec: the constraints of the post table, declared in
  \<^verbatim>\<open>lib/database/schema.js\<close>, which is not under \<^verbatim>\<open>src/\<close>. The identifier is the
  primary key and the normalized title is unique (a violation is SQLSTATE
  \<^verbatim>\<open>23505\<close>), \<^verbatim>\<open>categoryId\<close> is a nullable reference to a category (a
  violation is \<^verbatim>\<open>23503\<close>), \<^verbatim>\<open>published\<close> defaults to false, and the two
  timestamps are assigned by the store. The statement is
  \<^verbatim>\<open>insert into post (...) values (...) returning ...\<close>; the unique indexes are
  checked when the row is inserted, the foreign key after it.
\<close>

definition insert_post ::
  "env \<Rightarrow> db \<Rightarrow> string \<Rightarrow> string \<Rightarrow> string \<Rightarrow> bool option \<Rightarrow> string \<Rightarrow> string option
     \<Rightarrow> thrown + returned_post list \<times> db" where
  "insert_post e s ttl cnt nt pub sl cat =
     (let row = \<lparr>post_id = new_id e, title = ttl, slug = sl, content = cnt,
                 published = (case pub of None \<Rightarrow> Some False | Some b \<Rightarrow> Some b),
                 createdAt = now e, updatedAt = now e, categoryId = cat,
                 normalizedTitle = nt\<rparr>
      in if new_id e \<in> set (map post_id (postTable s)) \<or>
            nt \<in> set (map normalizedTitle (postTable s))
         then Inl (Thrown (Some ''23505''))
         else if (case cat of None \<Rightarrow> False
                  | Some c \<Rightarrow> c \<notin> set (map category_id (categoryTable s)))
         then Inl (Thrown (Some ''23503''))
         else Inr ([returned_post.truncate row], s\<lparr>postTable := postTable s @ [row]\<rparr>))"

text \<open>
  Lines 136-144: the branch of a post with a category. \<^verbatim>\<open>category.name\<close> on an
  empty result is a \<^verbatim>\<open>TypeError\<close>. The data has no \<^verbatim>\<open>tags\<close>.
\<close>

definition createPost_category ::
  "env \<Rightarrow> returned_post \<Rightarrow> string \<Rightarrow> db \<Rightarrow> (thrown + post_data) \<times> db" where
  "createPost_category e post c s =
     (case stmt e 1 (select_category_name s c) of
        Inl t \<Rightarrow> (Inl t, s)
      | Inr [] \<Rightarrow> (Inl (Thrown None), s)
      | Inr (name # _) \<Rightarrow> (Inr (post_with post (Some name) None), s))"

text \<open>Lines 146-166: the branch of a post without a category.\<close>

definition createPost_tags ::
  "env \<Rightarrow> returned_post \<Rightarrow> string list \<Rightarrow> db \<Rightarrow> (thrown + post_data) \<times> db" where
  "createPost_tags e post tagIds s =
     (if length tagIds > 0
      then (case associate_tags e post tagIds s of
              (Inl t, s') \<Rightarrow> (Inl t, s')
            | (Inr selectedTags, s') \<Rightarrow>
                (Inr (post_with post None (Some (map tag_name selectedTags))), s'))
      else (Inr (post_with post None (Some [])), s))"

text \<open>
  The body of the \<^verbatim>\<open>try\<close> block, with the arguments in the order of the
  destructuring of \<^verbatim>\<open>data\<close>. An absent or \<^verbatim>\<open>null\<close> \<^verbatim>\<open>categoryId\<close> and an absent
  \<^verbatim>\<open>published\<close> are \<open>None\<close>. The test \<^verbatim>\<open>if (post.categoryId)\<close> is JavaScript's
  truthiness of a \<^verbatim>\<open>string | null\<close>: \<^verbatim>\<open>null\<close> and the empty string are falsy.
  Destructuring \<^verbatim>\<open>[post]\<close> from an empty array leaves \<^verbatim>\<open>post\<close> undefined, and
  reading a property of it is a \<^verbatim>\<open>TypeError\<close>.
\<close>

definition createPost_try ::
  "env \<Rightarrow> string \<Rightarrow> string \<Rightarrow> string option \<Rightarrow> bool option \<Rightarrow> string list \<Rightarrow> db
     \<Rightarrow> (thrown + post_data) \<times> db" where
  "createPost_try e ttl cnt cat pub tagIds s =
     (case stmt e 0 (insert_post e s ttl cnt (normalizeString e ttl) pub (slug_fn e ttl) cat) of
        Inl t \<Rightarrow> (Inl t, s)
      | Inr ([], s') \<Rightarrow> (Inl (Thrown None), s')
      | Inr (post # _, s') \<Rightarrow>
          (case categoryId post of
             None \<Rightarrow> createPost_tags e post tagIds s'
           | Some c \<Rightarrow>
               if c \<noteq> [] then createPost_category e post c s'
               else createPost_tags e post tagIds s'))"

definition createPost_errorCode :: "thrown \<Rightarrow> error_code" where
  "createPost_errorCode t =
     (if err_code t = Some ''23505'' then duplicate_post_title
      else if err_code t = Some ''23503'' \<or> err_code t = Some ''22P02'' then category_not_found
      else cannot_create_post)"

definition createPost ::
  "env \<Rightarrow> string \<Rightarrow> string \<Rightarrow> string option \<Rightarrow> bool option \<Rightarrow> string list \<Rightarrow> db
     \<Rightarrow> post_data result \<times> db" where
  "createPost e ttl cnt cat pub tagIds s =
     (case createPost_try e ttl cnt cat pub tagIds s of
        (Inr d, s') \<Rightarrow> (\<lparr>data = Some d, errorCode = None\<rparr>, s')
      | (Inl t, s') \<Rightarrow> (\<lparr>data = None, errorCode = Some (createPost_errorCode t)\<rparr>, s'))"

section \<open>updatePost\<close>

text \<open>
  Modelled from the spec: the constraints of the post table, as for \<open>insert_post\<close>.
  The statement is \<^verbatim>\<open>update post set ... where id = $1 returning ...\<close>; it sets the
  six columns the source names and no other. With no matching row it changes
  nothing, checks nothing and returns no row.
\<close>

definition update_post ::
  "db \<Rightarrow> string \<Rightarrow> string \<Rightarrow> string \<Rightarrow> string \<Rightarrow> bool option \<Rightarrow> string \<Rightarrow> string option
     \<Rightarrow> thrown + returned_post list \<times> db" where
  "update_post s i ttl cnt nt pub sl cat =
     (let set_columns = (\<lambda>p. p\<lparr>title := ttl, content := cnt, normalizedTitle := nt,
                                published := pub, slug := sl, categoryId := cat\<rparr>)
      in if filter (\<lambda>p. post_id p = i) (postTable s) = [] then Inr ([], s)
         else if nt \<in> set (map normalizedTitle (filter (\<lambda>p. post_id p \<noteq> i) (postTable s)))
         then Inl (Thrown (Some ''23505''))
         else if (case cat of None \<Rightarrow> False
                  | Some c \<Rightarrow> c \<notin> set (map category_id (categoryTable s)))
         then Inl (Thrown (Some ''23503''))
         else Inr (map (\<lambda>p. returned_post.truncate (set_columns p))
                     (filter (\<lambda>p. post_id p = i) (postTable s)),
                   s\<lparr>postTable := map (\<lambda>p. if post_id p = i then set_columns p else p)
                                     (postTable s)\<rparr>))"

text \<open>\<^verbatim>\<open>delete from posts_to_tags where postId = $1\<close>\<close>

definition delete_posts_to_tags :: "db \<Rightarrow> string \<Rightarrow> thrown + db" where
  "delete_posts_to_tags s i =
     Inr (s\<lparr>postsToTags := filter (\<lambda>r. postId r \<noteq> i) (postsToTags s)\<rparr>)"

text \<open>
  Lines 229-247: the replacement of the tag set. \<open>tagIds = None\<close> is an omitted
  \<^verbatim>\<open>tagIds\<close>; an array, also the empty one, is truthy. The result is \<^verbatim>\<open>tags\<close>.
\<close>

definition updatePost_tags ::
  "env \<Rightarrow> returned_post \<Rightarrow> string list option \<Rightarrow> db \<Rightarrow> (thrown + tag_row list) \<times> db" where
  "updatePost_tags e post tagIds s =
     (case tagIds of
        None \<Rightarrow> (Inr [], s)
      | Some ids \<Rightarrow>
          (case stmt e 1 (delete_posts_to_tags s (post_id post)) of
             Inl t \<Rightarrow> (Inl t, s)
           | Inr s' \<Rightarrow>
               if length ids > 0 then associate_tags e post ids s' else (Inr [], s')))"

text \<open>
  Lines 249-268: the data returned. With a category it is
  \<^verbatim>\<open>{ ...post, category: category.name, tags: tags.map((t) => t.name) }\<close>; without one it
  is \<^verbatim>\<open>{ ...post, category: null }\<close>, which has no \<^verbatim>\<open>tags\<close>.
\<close>

definition updatePost_data ::
  "env \<Rightarrow> returned_post \<Rightarrow> tag_row list \<Rightarrow> db \<Rightarrow> thrown + post_data" where
  "updatePost_data e post tgs s =
     (case categoryId post of
        None \<Rightarrow> Inr (post_with post None None)
      | Some c \<Rightarrow>
          if c \<noteq> [] then
            (case stmt e 4 (select_category_name s c) of
               Inl t \<Rightarrow> Inl t
             | Inr [] \<Rightarrow> Inl (Thrown None)
             | Inr (name # _) \<Rightarrow> Inr (post_with post (Some name) (Some (map tag_name tgs))))
          else Inr (post_with post None None))"

text \<open>
  The body of the \<^verbatim>\<open>try\<close> block: the identifier, then the arguments in the order
  of the destructuring of \<^verbatim>\<open>data\<close>. \<^verbatim>\<open>categoryId ?? null\<close> is the value itself.
\<close>

definition updatePost_try ::
  "env \<Rightarrow> string \<Rightarrow> string \<Rightarrow> string \<Rightarrow> string option \<Rightarrow> bool option \<Rightarrow> string list option
     \<Rightarrow> db \<Rightarrow> (thrown + post_data) \<times> db" where
  "updatePost_try e i ttl cnt cat pub tagIds s =
     (case stmt e 0 (update_post s i ttl cnt (normalizeString e ttl) pub (slug_fn e ttl) cat) of
        Inl t \<Rightarrow> (Inl t, s)
      | Inr ([], s') \<Rightarrow> (Inl (Thrown None), s')
      | Inr (post # _, s') \<Rightarrow>
          (case updatePost_tags e post tagIds s' of
             (Inl t, s'') \<Rightarrow> (Inl t, s'')
           | (Inr tgs, s'') \<Rightarrow> (updatePost_data e post tgs s'', s'')))"

definition updatePost_errorCode :: "thrown \<Rightarrow> error_code" where
  "updatePost_errorCode t =
     (if err_code t = Some ''23505'' then duplicate_post_title
      else if err_code t = Some ''23503'' \<or> err_code t = Some ''22P02'' then category_not_found
      else cannot_update_post)"

definition updatePost ::
  "env \<Rightarrow> string \<Rightarrow> string \<Rightarrow> string \<Rightarrow> string option \<Rightarrow> bool option \<Rightarrow> string list option
     \<Rightarrow> db \<Rightarrow> post_data result \<times> db" where
  "updatePost e i ttl cnt cat pub tagIds s =
     (case updatePost_try e i ttl cnt cat pub tagIds s of
        (Inr d, s') \<Rightarrow> (\<lparr>data = Some d, errorCode = None\<rparr>, s')
      | (Inl t, s') \<Rightarrow> (\<lparr>data = None, errorCode = Some (updatePost_errorCode t)\<rparr>, s'))"

section \<open>deletePost\<close>

text \<open>
  Modelled from the spec: the foreign key of the join table to the post table, declared
  in \<^verbatim>\<open>lib/database/schema.js\<close>, which is not under \<^verbatim>\<open>src/\<close>. The repository
  deletes no association row itself, so the cascade the spec requires is the store's:
  \<^verbatim>\<open>delete from post where id = $1 returning id\<close> removes, with each post row it
  deletes, the association rows of that post.
\<close>

definition delete_post :: "db \<Rightarrow> string \<Rightarrow> thrown + string list \<times> db" where
  "delete_post s i =
     (if filter (\<lambda>p. post_id p = i) (postTable s) = [] then Inr ([], s)
      else Inr (map post_id (filter (\<lambda>p. post_id p = i) (postTable s)),
                s\<lparr>postTable := filter (\<lambda>p. post_id p \<noteq> i) (postTable s),
                  postsToTags := filter (\<lambda>r. postId r \<noteq> i) (postsToTags s)\<rparr>))"

text \<open>The data of a deletion is \<^verbatim>\<open>{ id }\<close>, here the identifier itself.\<close>

definition deletePost_try :: "env \<Rightarrow> string \<Rightarrow> db \<Rightarrow> (thrown + string) \<times> db" where
  "deletePost_try e i s =
     (case stmt e 0 (delete_post s i) of
        Inl t \<Rightarrow> (Inl t, s)
      | Inr ([], s') \<Rightarrow> (Inl (Thrown (Some ''22P02'')), s')
      | Inr (post # _, s') \<Rightarrow> (Inr post, s'))"

definition deletePost_errorCode :: "thrown \<Rightarrow> error_code" where
  "deletePost_errorCode t =
     (if err_code t = Some ''22P02'' then post_not_found else cannot_delete_post)"

definition deletePost :: "env \<Rightarrow> string \<Rightarrow> db \<Rightarrow> string result \<times> db" where
  "deletePost e i s =
     (case deletePost_try e i s of
        (Inr d, s') \<Rightarrow> (\<lparr>data = Some d, errorCode = None\<rparr>, s')
      | (Inl t, s') \<Rightarrow> (\<lparr>data = None, errorCode = Some (deletePost_errorCode t)\<rparr>, s'))"

section \<open>getPosts\<close>

text \<open>
  \<^verbatim>\<open>db.query.postTable.findMany\<close> with the relations \<^verbatim>\<open>category\<close> and
  \<^verbatim>\<open>postsToTags.tag\<close>. The function has no \<^verbatim>\<open>try\<close>: what the statement throws is
  what the caller gets, here \<open>Inl\<close>.
\<close>

definition find_many :: "db \<Rightarrow> thrown + listed_post list" where
  "find_many s =
     Inr (map (\<lambda>p. post_columns.extend (post_columns.truncate p)
            (listed_post.fields
               (case filter (\<lambda>c. categoryId p = Some (category_id c)) (categoryTable s) of
                  [] \<Rightarrow> None | c # _ \<Rightarrow> Some (category_name c))
               (map (\<lambda>r. case filter (\<lambda>t. tag_id t = tagId r) (tagTable s) of
                            [] \<Rightarrow> None | t # _ \<Rightarrow> Some (tag_name t))
                  (filter (\<lambda>r. postId r = post_id p) (postsToTags s)))))
          (postTable s))"

definition getPosts :: "env \<Rightarrow> db \<Rightarrow> thrown + listed_post list" where
  "getPosts e s = stmt e 0 (find_many s)"

section \<open>Auxiliary notions and an example store\<close>

text \<open>
  The name of the category a post row refers to: the first category row whose
  identifier is the row's \<open>categoryId\<close>, if there is one.
\<close>

definition category_of :: "db \<Rightarrow> post_row \<Rightarrow> string option" where
  "category_of s p = (case filter (\<lambda>c. categoryId p = Some (category_id c)) (categoryTable s) of
        [] \<Rightarrow> None | c # cs \<Rightarrow> Some (category_name c))"

text \<open>
  A store with one post, one category and two tags, and an environment in which
  normalization and slug are the identity and the engine raises no failure;
  \<open>fault_at k c\<close> is the engine failing at statement \<open>k\<close> with SQLSTATE \<open>c\<close>
  (\<^verbatim>\<open>08006\<close> is a lost connection).
\<close>

definition example_env :: env where
  "example_env = \<lparr>normalizeString = (\<lambda>t. t), slug_fn = (\<lambda>t. t), new_id = ''p2'', now = 7,
            fault = (\<lambda>k. None)\<rparr>"

definition example_db :: db where
  "example_db = \<lparr>postTable = [\<lparr>post_id = ''p1'', title = ''Hello World'', slug = ''Hello World'',
                content = ''hi'', published = Some False, createdAt = 1, updatedAt = 1,
                categoryId = None, normalizedTitle = ''Hello World''\<rparr>],
          categoryTable = [\<lparr>category_id = ''c1'', category_name = ''news''\<rparr>],
          tagTable = [\<lparr>tag_id = ''t1'', tag_name = ''tag-one''\<rparr>,
                      \<lparr>tag_id = ''t2'', tag_name = ''tag-two''\<rparr>],
          postsToTags = [\<lparr>postId = ''p1'', tagId = ''t1''\<rparr>]\<rparr>"

definition fault_at :: "nat \<Rightarrow> string option \<Rightarrow> nat \<Rightarrow> thrown option" where
  "fault_at k c = (\<lambda>j. if j = k then Some (Thrown c) else None)"

section \<open>Reading one post\<close>

lemma truncate_post_with: "returned_post.truncate (post_with r c ts) = r"
  by (cases r) (simp add: post_with_def returned_post.defs post_columns.defs post_data.defs)

lemma category_post_with: "category (post_with r c ts) = c"
  by (cases r) (simp add: post_with_def returned_post.defs post_columns.defs post_data.defs)

lemma tags_post_with: "tags (post_with r c ts) = ts"
  by (cases r) (simp add: post_with_def returned_post.defs post_columns.defs post_data.defs)

lemma post_id_post_with: "post_id (post_with r c ts) = post_id r"
  by (cases r) (simp add: post_with_def returned_post.defs post_columns.defs post_data.defs)

lemma post_with_tags_update: "(post_with r c ts)\<lparr>tags := ts'\<rparr> = post_with r c ts'"
  by (cases r) (simp add: post_with_def returned_post.defs post_columns.defs post_data.defs)

lemma post_id_truncate: "post_id (returned_post.truncate (p::post_row)) = post_id p"
  by (cases p) (simp add: returned_post.defs)

lemma left_join_category_hd:
  "\<exists>rest. left_join_category s p =
     post_with (returned_post.truncate p) (category_of s p) None # rest"
  by (simp add: left_join_category_def category_of_def split: list.splits)

lemma select_post_by_id_none:
  "filter (\<lambda>p. post_id p = i) (postTable s) = [] \<Longrightarrow> select_post_by_id s i = Inr []"
  by (simp add: select_post_by_id_def)

lemma select_post_by_id_some:
  assumes "filter (\<lambda>p. post_id p = i) (postTable s) = p # ps"
  shows "select_post_by_id s i =
    Inr [post_with (returned_post.truncate p) (category_of s p) None]"
proof -
  obtain rest where "left_join_category s p =
     post_with (returned_post.truncate p) (category_of s p) None # rest"
    using left_join_category_hd by blast
  with assms show ?thesis by (simp add: select_post_by_id_def)
qed

lemma category_of_cases:
  "(case category_of s p of
      None \<Rightarrow> \<forall>c\<in>set (categoryTable s). categoryId p \<noteq> Some (category_id c)
    | Some n \<Rightarrow> \<exists>c\<in>set (categoryTable s). categoryId p = Some (category_id c) \<and> n = category_name c)"
proof (cases "filter (\<lambda>c. categoryId p = Some (category_id c)) (categoryTable s)")
  case Nil
  then show ?thesis by (simp add: category_of_def filter_empty_conv)
next
  case (Cons c cs)
  then have "c \<in> set (filter (\<lambda>c. categoryId p = Some (category_id c)) (categoryTable s))" by simp
  then have "c \<in> set (categoryTable s) \<and> categoryId p = Some (category_id c)" by simp
  moreover have "category_of s p = Some (category_name c)"
    using Cons by (simp add: category_of_def)
  ultimately show ?thesis by auto
qed

lemma select_tag_names_set:
  assumes "select_tag_names s i = Inr names"
  shows "set names = {tag_name t | t. t \<in> set (tagTable s) \<and>
                   (\<exists>r\<in>set (postsToTags s). postId r = i \<and> tagId r = tag_id t)}"
proof -
  have "names = concat (map (\<lambda>t. map (\<lambda>r. tag_name t)
       (filter (\<lambda>r. tagId r = tag_id t \<and> postId r = i) (postsToTags s))) (tagTable s))"
    using assms by (simp add: select_tag_names_def)
  then show ?thesis by (simp, blast)
qed

lemma getPostById_fault0:
  "fault e 0 = Some t \<Longrightarrow>
   getPostById e i s = \<lparr>data = None, errorCode = Some (getPostById_errorCode t)\<rparr>"
  by (simp add: getPostById_def getPostById_try_def stmt_def)

lemma getPostById_absent:
  "fault e 0 = None \<Longrightarrow> filter (\<lambda>p. post_id p = i) (postTable s) = [] \<Longrightarrow>
   getPostById e i s = \<lparr>data = None, errorCode = Some post_not_found\<rparr>"
  by (simp add: getPostById_def getPostById_try_def stmt_def select_post_by_id_none
      getPostById_errorCode_def)

lemma getPostById_fault1:
  assumes "fault e 0 = None" "filter (\<lambda>p. post_id p = i) (postTable s) = p # ps"
    "fault e 1 = Some t"
  shows "getPostById e i s = \<lparr>data = None, errorCode = Some (getPostById_errorCode t)\<rparr>"
  using assms
  by (simp add: getPostById_def getPostById_try_def stmt_def select_post_by_id_some)

lemma getPostById_found:
  assumes "fault e 0 = None" "filter (\<lambda>p. post_id p = i) (postTable s) = p # ps"
    "fault e 1 = None"
  shows "\<exists>names. select_tag_names s i = Inr names \<and> getPostById e i s =
     \<lparr>data = Some (post_with (returned_post.truncate p) (category_of s p) (Some names)),
      errorCode = None\<rparr>"
proof -
  have "p \<in> set (filter (\<lambda>p. post_id p = i) (postTable s))" using assms(2) by simp
  then have pid: "post_id p = i" by simp
  obtain names where n: "select_tag_names s i = Inr names"
    by (simp add: select_tag_names_def)
  show ?thesis using assms n pid
    by (simp add: getPostById_def getPostById_try_def stmt_def select_post_by_id_some
        post_id_post_with post_id_truncate post_with_tags_update)
qed

text \<open>
  Claim C5. \<^verbatim>\<open>getPostById\<close> returns \<open>(null, post_not_found)\<close> when no row has the
  identifier or the store rejects the identifier as invalid (SQLSTATE \<^verbatim>\<open>22P02\<close>), and
  \<open>(null, cannot_get_post)\<close> for any other storage failure, at the first statement or at
  the second. With no failure and a row for the identifier it succeeds, and the data of a
  success is that post: its columns and category identifier, the name of the category the
  row refers to (or \<^verbatim>\<open>null\<close>), and the names of the tags associated with it.
\<close>

theorem getPostById_outcomes:
  "(fault e 0 = None \<and> (\<forall>p\<in>set (postTable s). post_id p \<noteq> i)
      \<longrightarrow> getPostById e i s = \<lparr>data = None, errorCode = Some post_not_found\<rparr>)
   \<and> (fault e 0 = Some (Thrown (Some ''22P02''))
      \<longrightarrow> getPostById e i s = \<lparr>data = None, errorCode = Some post_not_found\<rparr>)
   \<and> (\<forall>t. err_code t \<noteq> Some ''22P02'' \<and>
          (fault e 0 = Some t \<or>
           fault e 0 = None \<and> (\<exists>p\<in>set (postTable s). post_id p = i) \<and> fault e 1 = Some t)
      \<longrightarrow> getPostById e i s = \<lparr>data = None, errorCode = Some cannot_get_post\<rparr>)
   \<and> (fault e 0 = None \<and> fault e 1 = None \<and> (\<exists>p\<in>set (postTable s). post_id p = i)
      \<longrightarrow> errorCode (getPostById e i s) = None)
   \<and> (errorCode (getPostById e i s) = None
      \<longrightarrow> (\<exists>p\<in>set (postTable s). \<exists>d names.
            post_id p = i \<and> data (getPostById e i s) = Some d \<and>
            returned_post.truncate d = returned_post.truncate p \<and>
            (case category d of
               None \<Rightarrow> \<forall>c\<in>set (categoryTable s). categoryId p \<noteq> Some (category_id c)
             | Some n \<Rightarrow> \<exists>c\<in>set (categoryTable s).
                   categoryId p = Some (category_id c) \<and> n = category_name c) \<and>
            tags d = Some names \<and>
            set names = {tag_name t | t. t \<in> set (tagTable s) \<and>
               (\<exists>r\<in>set (postsToTags s). postId r = i \<and> tagId r = tag_id t)}))"
proof -
  have absent: "fault e 0 = None \<and> (\<forall>p\<in>set (postTable s). post_id p \<noteq> i)
      \<longrightarrow> getPostById e i s = \<lparr>data = None, errorCode = Some post_not_found\<rparr>"
    by (simp add: getPostById_absent filter_empty_conv)
  have rejected: "fault e 0 = Some (Thrown (Some ''22P02''))
      \<longrightarrow> getPostById e i s = \<lparr>data = None, errorCode = Some post_not_found\<rparr>"
    by (simp add: getPostById_fault0 getPostById_errorCode_def)
  have other: "\<forall>t. err_code t \<noteq> Some ''22P02'' \<and>
          (fault e 0 = Some t \<or>
           fault e 0 = None \<and> (\<exists>p\<in>set (postTable s). post_id p = i) \<and> fault e 1 = Some t)
      \<longrightarrow> getPostById e i s = \<lparr>data = None, errorCode = Some cannot_get_post\<rparr>"
  proof (intro allI impI, elim conjE disjE)
    fix t assume "err_code t \<noteq> Some ''22P02''" "fault e 0 = Some t"
    then show "getPostById e i s = \<lparr>data = None, errorCode = Some cannot_get_post\<rparr>"
      by (simp add: getPostById_fault0 getPostById_errorCode_def)
  next
    fix t assume c: "err_code t \<noteq> Some ''22P02''" and f0: "fault e 0 = None"
      and ex: "\<exists>p\<in>set (postTable s). post_id p = i" and f1: "fault e 1 = Some t"
    from ex obtain p ps where "filter (\<lambda>p. post_id p = i) (postTable s) = p # ps"
      by (cases "filter (\<lambda>p. post_id p = i) (postTable s)") (auto simp add: filter_empty_conv)
    from getPostById_fault1 [OF f0 this f1] c
    show "getPostById e i s = \<lparr>data = None, errorCode = Some cannot_get_post\<rparr>"
      by (simp add: getPostById_errorCode_def)
  qed
  have found: "\<exists>p\<in>set (postTable s). \<exists>d names.
            post_id p = i \<and> data (getPostById e i s) = Some d \<and>
            returned_post.truncate d = returned_post.truncate p \<and>
            (case category d of
               None \<Rightarrow> \<forall>c\<in>set (categoryTable s). categoryId p \<noteq> Some (category_id c)
             | Some n \<Rightarrow> \<exists>c\<in>set (categoryTable s).
                   categoryId p = Some (category_id c) \<and> n = category_name c) \<and>
            tags d = Some names \<and>
            set names = {tag_name t | t. t \<in> set (tagTable s) \<and>
               (\<exists>r\<in>set (postsToTags s). postId r = i \<and> tagId r = tag_id t)}"
    if f0: "fault e 0 = None" and f1: "fault e 1 = None"
      and fl: "filter (\<lambda>p. post_id p = i) (postTable s) = p # ps" for p ps
  proof -
    have "p \<in> set (filter (\<lambda>p. post_id p = i) (postTable s))" using fl by simp
    then have pin: "p \<in> set (postTable s)" and pid: "post_id p = i" by simp_all
    from getPostById_found [OF f0 fl f1] obtain names where
      n: "select_tag_names s i = Inr names" and
      r: "getPostById e i s =
        \<lparr>data = Some (post_with (returned_post.truncate p) (category_of s p) (Some names)),
         errorCode = None\<rparr>" by blast
    show ?thesis
      using pin pid r select_tag_names_set [OF n] category_of_cases [of s p]
      by (intro bexI [of _ p]) (simp_all add: truncate_post_with category_post_with tags_post_with)
  qed
  have success: "fault e 0 = None \<and> fault e 1 = None \<and> (\<exists>p\<in>set (postTable s). post_id p = i)
      \<longrightarrow> errorCode (getPostById e i s) = None"
  proof (intro impI, elim conjE)
    assume f0: "fault e 0 = None" and f1: "fault e 1 = None"
      and ex: "\<exists>p\<in>set (postTable s). post_id p = i"
    from ex obtain p ps where fl: "filter (\<lambda>p. post_id p = i) (postTable s) = p # ps"
      by (cases "filter (\<lambda>p. post_id p = i) (postTable s)") (auto simp add: filter_empty_conv)
    from getPostById_found [OF f0 fl f1] show "errorCode (getPostById e i s) = None" by auto
  qed
  have content: "errorCode (getPostById e i s) = None
      \<longrightarrow> (\<exists>p\<in>set (postTable s). \<exists>d names.
            post_id p = i \<and> data (getPostById e i s) = Some d \<and>
            returned_post.truncate d = returned_post.truncate p \<and>
            (case category d of
               None \<Rightarrow> \<forall>c\<in>set (categoryTable s). categoryId p \<noteq> Some (category_id c)
             | Some n \<Rightarrow> \<exists>c\<in>set (categoryTable s).
                   categoryId p = Some (category_id c) \<and> n = category_name c) \<and>
            tags d = Some names \<and>
            set names = {tag_name t | t. t \<in> set (tagTable s) \<and>
               (\<exists>r\<in>set (postsToTags s). postId r = i \<and> tagId r = tag_id t)})"
  proof
    assume ok: "errorCode (getPostById e i s) = None"
    have f0: "fault e 0 = None"
    proof (cases "fault e 0")
      case (Some t) with getPostById_fault0 [OF Some, of i s] ok show ?thesis by simp
    qed simp
    obtain p ps where fl: "filter (\<lambda>p. post_id p = i) (postTable s) = p # ps"
    proof (cases "filter (\<lambda>p. post_id p = i) (postTable s)")
      case Nil with getPostById_absent [OF f0 Nil] ok show ?thesis by simp
    qed blast
    have f1: "fault e 1 = None"
    proof (cases "fault e 1")
      case (Some t) with getPostById_fault1 [OF f0 fl Some] ok show ?thesis by simp
    qed simp
    from found [OF f0 f1 fl] show "\<exists>p\<in>set (postTable s). \<exists>d names.
            post_id p = i \<and> data (getPostById e i s) = Some d \<and>
            returned_post.truncate d = returned_post.truncate p \<and>
            (case category d of
               None \<Rightarrow> \<forall>c\<in>set (categoryTable s). categoryId p \<noteq> Some (category_id c)
             | Some n \<Rightarrow> \<exists>c\<in>set (categoryTable s).
                   categoryId p = Some (category_id c) \<and> n = category_name c) \<and>
            tags d = Some names \<and>
            set names = {tag_name t | t. t \<in> set (tagTable s) \<and>
               (\<exists>r\<in>set (postsToTags s). postId r = i \<and> tagId r = tag_id t)}" .
  qed
  from absent rejected other success content show ?thesis by blast
qed

theorem getPostById_outcomes_witness:
  "getPostById example_env ''p9'' example_db = \<lparr>data = None, errorCode = Some post_not_found\<rparr>
   \<and> getPostById (example_env\<lparr>fault := fault_at 0 (Some ''22P02'')\<rparr>) ''p1'' example_db =
       \<lparr>data = None, errorCode = Some post_not_found\<rparr>
   \<and> getPostById (example_env\<lparr>fault := fault_at 1 (Some ''08006'')\<rparr>) ''p1'' example_db =
       \<lparr>data = None, errorCode = Some cannot_get_post\<rparr>
   \<and> errorCode (getPostById example_env ''p1'' example_db) = None
   \<and> (\<exists>d names. data (getPostById example_env ''p1'' example_db) = Some d \<and>
         post_id d = ''p1'' \<and> category d = None \<and> tags d = Some names \<and>
         set names = {tag_name t | t. t \<in> set (tagTable example_db) \<and>
            (\<exists>r\<in>set (postsToTags example_db). postId r = ''p1'' \<and> tagId r = tag_id t)})"
proof -
  let ?rejecting = "example_env\<lparr>fault := fault_at 0 (Some ''22P02'')\<rparr>"
  let ?failing = "example_env\<lparr>fault := fault_at 1 (Some ''08006'')\<rparr>"
  have h1: "fault example_env 0 = None \<and> (\<forall>p\<in>set (postTable example_db). post_id p \<noteq> ''p9'')"
    by (simp add: example_env_def example_db_def)
  have h2: "fault ?rejecting 0 = Some (Thrown (Some ''22P02''))"
    by (simp add: fault_at_def)
  have h3: "err_code (Thrown (Some ''08006'')) \<noteq> Some ''22P02'' \<and>
      fault ?failing 0 = None \<and> (\<exists>p\<in>set (postTable example_db). post_id p = ''p1'') \<and>
      fault ?failing 1 = Some (Thrown (Some ''08006''))"
    by (simp add: fault_at_def example_db_def)
  have h4: "fault example_env 0 = None \<and> fault example_env 1 = None \<and>
      (\<exists>p\<in>set (postTable example_db). post_id p = ''p1'')"
    by (simp add: example_env_def example_db_def)
  have c1: "getPostById example_env ''p9'' example_db =
      \<lparr>data = None, errorCode = Some post_not_found\<rparr>"
    using getPostById_outcomes [of example_env example_db "''p9''"] h1 by blast
  have c2: "getPostById ?rejecting ''p1'' example_db =
      \<lparr>data = None, errorCode = Some post_not_found\<rparr>"
    using getPostById_outcomes [of ?rejecting example_db "''p1''"] h2 by blast
  have c3: "getPostById ?failing ''p1'' example_db =
      \<lparr>data = None, errorCode = Some cannot_get_post\<rparr>"
    using getPostById_outcomes [of ?failing example_db "''p1''"] h3 by blast
  have c4: "errorCode (getPostById example_env ''p1'' example_db) = None"
    using getPostById_outcomes [of example_env example_db "''p1''"] h4 by blast
  have "\<exists>p\<in>set (postTable example_db). \<exists>d names.
      post_id p = ''p1'' \<and> data (getPostById example_env ''p1'' example_db) = Some d \<and>
      returned_post.truncate d = returned_post.truncate p \<and>
      (case category d of
         None \<Rightarrow> \<forall>c\<in>set (categoryTable example_db). categoryId p \<noteq> Some (category_id c)
       | Some n \<Rightarrow> \<exists>c\<in>set (categoryTable example_db).
             categoryId p = Some (category_id c) \<and> n = category_name c) \<and>
      tags d = Some names \<and>
      set names = {tag_name t | t. t \<in> set (tagTable example_db) \<and>
         (\<exists>r\<in>set (postsToTags example_db). postId r = ''p1'' \<and> tagId r = tag_id t)}"
    using getPostById_outcomes [of example_env example_db "''p1''"] c4 by blast
  then obtain p d names where
    d: "data (getPostById example_env ''p1'' example_db) = Some d"
    and p: "p \<in> set (postTable example_db)" "post_id p = ''p1''"
    and tr: "returned_post.truncate d = returned_post.truncate p"
    and cat: "(case category d of
         None \<Rightarrow> \<forall>c\<in>set (categoryTable example_db). categoryId p \<noteq> Some (category_id c)
       | Some n \<Rightarrow> \<exists>c\<in>set (categoryTable example_db).
             categoryId p = Some (category_id c) \<and> n = category_name c)"
    and n: "tags d = Some names"
      "set names = {tag_name t | t. t \<in> set (tagTable example_db) \<and>
         (\<exists>r\<in>set (postsToTags example_db). postId r = ''p1'' \<and> tagId r = tag_id t)}"
    by blast
  have "post_id (returned_post.truncate d) = post_id d"
    by (cases d) (simp add: returned_post.defs)
  with tr p have pd: "post_id d = ''p1''" by (simp add: post_id_truncate)
  have "categoryId p = None" using p by (auto simp add: example_db_def)
  with cat have cd: "category d = None" by (cases "category d") auto
  from c1 c2 c3 c4 d pd cd n show ?thesis by blast
qed

section \<open>Replacing the tag set\<close>

lemma stmt_Inr: "stmt e k r = Inr x \<Longrightarrow> fault e k = None \<and> r = Inr x"
  by (simp add: stmt_def split: option.splits)

lemma stmt_no_fault: "fault e k = None \<Longrightarrow> stmt e k r = r"
  by (simp add: stmt_def)

lemma update_post_Inr:
  assumes "update_post s i ttl cnt nt pub sl cat = Inr (rows, s')"
  shows "list_all (\<lambda>r. post_id r = i) rows" and "postsToTags s' = postsToTags s"
    and "tagTable s' = tagTable s" and "categoryTable s' = categoryTable s"
  using assms
  by (auto simp add: update_post_def Let_def list_all_iff returned_post.defs
      split: if_splits)

lemma update_post_absent:
  "filter (\<lambda>p. post_id p = i) (postTable s) = [] \<Longrightarrow>
   update_post s i ttl cnt nt pub sl cat = Inr ([], s)"
  by (simp add: update_post_def)

lemma associate_tags_Inr:
  assumes "associate_tags e post ids s = (Inr tgs, s')"
  shows "tgs = filter (\<lambda>t. tag_id t \<in> set ids) (tagTable s)"
    and "s' = s\<lparr>postsToTags := postsToTags s @
           map (\<lambda>tag. \<lparr>postId = post_id post, tagId = tag_id tag\<rparr>) tgs\<rparr>"
    and "tgs \<noteq> []"
  using assms
  by (auto simp add: associate_tags_def stmt_def select_tags_in_def insert_posts_to_tags_def
      split: option.splits sum.splits if_splits)

lemma updatePost_tags_Inr:
  assumes "updatePost_tags e post (Some ids) s = (Inr tgs, s')"
  shows "tgs = filter (\<lambda>t. tag_id t \<in> set ids) (tagTable s)"
    and "s' = s\<lparr>postsToTags := filter (\<lambda>r. postId r \<noteq> post_id post) (postsToTags s) @
           map (\<lambda>tag. \<lparr>postId = post_id post, tagId = tag_id tag\<rparr>) tgs\<rparr>"
proof -
  from assms obtain s1 where d: "stmt e 1 (delete_posts_to_tags s (post_id post)) = Inr s1"
    and rest: "(if length ids > 0 then associate_tags e post ids s1 else (Inr [], s1)) = (Inr tgs, s')"
    by (auto simp add: updatePost_tags_def split: sum.splits)
  from stmt_Inr [OF d] have s1: "s1 = s\<lparr>postsToTags := filter (\<lambda>r. postId r \<noteq> post_id post) (postsToTags s)\<rparr>"
    by (simp add: delete_posts_to_tags_def)
  show "tgs = filter (\<lambda>t. tag_id t \<in> set ids) (tagTable s)"
  proof (cases "ids = []")
    case True with rest show ?thesis by simp
  next
    case False with rest associate_tags_Inr(1) [of e post ids s1 tgs s'] s1 show ?thesis by simp
  qed
  show "s' = s\<lparr>postsToTags := filter (\<lambda>r. postId r \<noteq> post_id post) (postsToTags s) @
           map (\<lambda>tag. \<lparr>postId = post_id post, tagId = tag_id tag\<rparr>) tgs\<rparr>"
  proof (cases "ids = []")
    case True with rest s1 show ?thesis by auto
  next
    case False with rest associate_tags_Inr(2) [of e post ids s1 tgs s'] s1 show ?thesis by simp
  qed
qed

lemma updatePost_tags_None: "updatePost_tags e post None s = (Inr [], s)"
  by (simp add: updatePost_tags_def)

lemma updatePost_success:
  assumes "errorCode (fst (updatePost e i ttl cnt cat pub tagIds s)) = None"
  shows "\<exists>post rest s1 tgs.
     update_post s i ttl cnt (normalizeString e ttl) pub (slug_fn e ttl) cat = Inr (post # rest, s1) \<and>
     fault e 0 = None \<and>
     updatePost_tags e post tagIds s1 = (Inr tgs, snd (updatePost e i ttl cnt cat pub tagIds s)) \<and>
     (\<exists>d. updatePost_data e post tgs (snd (updatePost e i ttl cnt cat pub tagIds s)) = Inr d \<and>
          data (fst (updatePost e i ttl cnt cat pub tagIds s)) = Some d)"
proof -
  let ?u = "stmt e 0 (update_post s i ttl cnt (normalizeString e ttl) pub (slug_fn e ttl) cat)"
  from assms obtain post rest s1 where u: "?u = Inr (post # rest, s1)"
    by (cases ?u; auto simp add: updatePost_def updatePost_try_def split: list.splits prod.splits)
  obtain r s2 where t: "updatePost_tags e post tagIds s1 = (r, s2)" by (cases "updatePost_tags e post tagIds s1")
  from assms u t obtain tgs where r: "r = Inr tgs"
    by (cases r) (auto simp add: updatePost_def updatePost_try_def)
  from assms u t r obtain d where d: "updatePost_data e post tgs s2 = Inr d"
    by (cases "updatePost_data e post tgs s2") (auto simp add: updatePost_def updatePost_try_def)
  have "updatePost e i ttl cnt cat pub tagIds s = (\<lparr>data = Some d, errorCode = None\<rparr>, s2)"
    using u t r d by (simp add: updatePost_def updatePost_try_def)
  with stmt_Inr [OF u] t r d show ?thesis by auto
qed

lemma updatePost_replaces:
  assumes "errorCode (fst (updatePost e i ttl cnt cat pub (Some ids) s)) = None"
  shows "postsToTags (snd (updatePost e i ttl cnt cat pub (Some ids) s)) =
     filter (\<lambda>r. postId r \<noteq> i) (postsToTags s) @
     map (\<lambda>tag. \<lparr>postId = i, tagId = tag_id tag\<rparr>)
       (filter (\<lambda>t. tag_id t \<in> set ids) (tagTable s))"
    and "tagTable (snd (updatePost e i ttl cnt cat pub (Some ids) s)) = tagTable s"
proof -
  let ?s' = "snd (updatePost e i ttl cnt cat pub (Some ids) s)"
  from updatePost_success [OF assms] obtain post rest s1 tgs where
    u: "update_post s i ttl cnt (normalizeString e ttl) pub (slug_fn e ttl) cat = Inr (post # rest, s1)"
    and t: "updatePost_tags e post (Some ids) s1 = (Inr tgs, ?s')" by blast
  from update_post_Inr [OF u] have pid: "post_id post = i"
    and a1: "postsToTags s1 = postsToTags s" and t1: "tagTable s1 = tagTable s" by simp_all
  from updatePost_tags_Inr [OF t] pid a1 t1
  show "postsToTags ?s' = filter (\<lambda>r. postId r \<noteq> i) (postsToTags s) @
     map (\<lambda>tag. \<lparr>postId = i, tagId = tag_id tag\<rparr>)
       (filter (\<lambda>t. tag_id t \<in> set ids) (tagTable s))"
    and "tagTable ?s' = tagTable s" by simp_all
qed

lemma updatePost_keeps:
  assumes "errorCode (fst (updatePost e i ttl cnt cat pub None s)) = None"
  shows "postsToTags (snd (updatePost e i ttl cnt cat pub None s)) = postsToTags s"
proof -
  let ?s' = "snd (updatePost e i ttl cnt cat pub None s)"
  from updatePost_success [OF assms] obtain post rest s1 tgs where
    u: "update_post s i ttl cnt (normalizeString e ttl) pub (slug_fn e ttl) cat = Inr (post # rest, s1)"
    and t: "updatePost_tags e post None s1 = (Inr tgs, ?s')" by blast
  from update_post_Inr(2) [OF u] t show ?thesis by (simp add: updatePost_tags_None)
qed

lemma rows_of_replaced:
  "filter (\<lambda>r. postId r = i)
     (filter (\<lambda>r. postId r \<noteq> i) rows @ map (\<lambda>tag. \<lparr>postId = i, tagId = tag_id tag\<rparr>) tgs) =
   map (\<lambda>tag. \<lparr>postId = i, tagId = tag_id tag\<rparr>) tgs"
  by (simp add: filter_empty_conv filter_map comp_def)

lemma others_of_replaced:
  "filter (\<lambda>r. postId r \<noteq> i)
     (filter (\<lambda>r. postId r \<noteq> i) rows @ map (\<lambda>tag. \<lparr>postId = i, tagId = tag_id tag\<rparr>) tgs) =
   filter (\<lambda>r. postId r \<noteq> i) rows"
  by (simp add: filter_empty_conv filter_map comp_def)

lemma count_distinct_tag:
  "distinct (map tag_id ts) \<Longrightarrow>
   length (filter (\<lambda>t. tag_id t = x \<and> tag_id t \<in> A) ts) =
     (if x \<in> A \<and> x \<in> tag_id ` set ts then 1 else 0)"
  by (induction ts) auto

text \<open>
  Claim C7. After a successful \<^verbatim>\<open>updatePost\<close>: when \<^verbatim>\<open>tagIds\<close> was supplied (the
  empty array included), the tag identifiers associated with the post are exactly the
  supplied identifiers that exist in the tag table, and the association rows of other
  posts are as before; when \<^verbatim>\<open>tagIds\<close> was omitted, the association table is what it
  was before the call.
\<close>

theorem updatePost_tag_set:
  assumes "errorCode (fst (updatePost e i ttl cnt cat pub tagIds s)) = None"
  shows "(case tagIds of
            Some ids \<Rightarrow>
              {tagId r | r. r \<in> set (postsToTags (snd (updatePost e i ttl cnt cat pub tagIds s))) \<and>
                   postId r = i} = set ids \<inter> tag_id ` set (tagTable s) \<and>
              filter (\<lambda>r. postId r \<noteq> i) (postsToTags (snd (updatePost e i ttl cnt cat pub tagIds s))) =
                filter (\<lambda>r. postId r \<noteq> i) (postsToTags s)
          | None \<Rightarrow>
              postsToTags (snd (updatePost e i ttl cnt cat pub tagIds s)) = postsToTags s)"
proof (cases tagIds)
  case None
  with assms updatePost_keeps [of e i ttl cnt cat pub s] show ?thesis by simp
next
  case (Some ids)
  let ?s' = "snd (updatePost e i ttl cnt cat pub (Some ids) s)"
  let ?tgs = "filter (\<lambda>t. tag_id t \<in> set ids) (tagTable s)"
  from assms Some have ok: "errorCode (fst (updatePost e i ttl cnt cat pub (Some ids) s)) = None"
    by simp
  note s' = updatePost_replaces(1) [OF ok]
  have "{tagId r | r. r \<in> set (postsToTags ?s') \<and> postId r = i} =
      tagId ` set (filter (\<lambda>r. postId r = i) (postsToTags ?s'))"
    by auto
  also have "\<dots> = tag_id ` set ?tgs"
    unfolding s' rows_of_replaced by (simp add: image_comp comp_def)
  also have "\<dots> = set ids \<inter> tag_id ` set (tagTable s)"
    by auto
  finally have one: "{tagId r | r. r \<in> set (postsToTags ?s') \<and> postId r = i} =
      set ids \<inter> tag_id ` set (tagTable s)" .
  have two: "filter (\<lambda>r. postId r \<noteq> i) (postsToTags ?s') =
      filter (\<lambda>r. postId r \<noteq> i) (postsToTags s)"
    unfolding s' by (rule others_of_replaced)
  from one two Some show ?thesis by simp
qed

text \<open>
  Claim C9. Tag identifiers are the primary key of the tag table. When \<^verbatim>\<open>updatePost\<close>
  is performed twice in a row with the same \<^verbatim>\<open>tagIds\<close> and both calls succeed, the post
  has exactly one association row for every listed tag that exists and none for any other
  tag, and the second call leaves the association table as the first one left it.
\<close>

theorem updatePost_twice:
  assumes "distinct (map tag_id (tagTable s))"
    and "errorCode (fst (updatePost e i ttl cnt cat pub (Some ids) s)) = None"
    and "errorCode (fst (updatePost e i ttl cnt cat pub (Some ids)
           (snd (updatePost e i ttl cnt cat pub (Some ids) s)))) = None"
  shows "length (filter (\<lambda>r. postId r = i \<and> tagId r = t)
           (postsToTags (snd (updatePost e i ttl cnt cat pub (Some ids)
              (snd (updatePost e i ttl cnt cat pub (Some ids) s)))))) =
           (if t \<in> set ids \<and> t \<in> tag_id ` set (tagTable s) then 1 else 0) \<and>
         postsToTags (snd (updatePost e i ttl cnt cat pub (Some ids)
              (snd (updatePost e i ttl cnt cat pub (Some ids) s)))) =
           postsToTags (snd (updatePost e i ttl cnt cat pub (Some ids) s))"
proof -
  let ?s1 = "snd (updatePost e i ttl cnt cat pub (Some ids) s)"
  let ?s2 = "snd (updatePost e i ttl cnt cat pub (Some ids) ?s1)"
  let ?tgs = "filter (\<lambda>t. tag_id t \<in> set ids) (tagTable s)"
  let ?new = "map (\<lambda>tag. \<lparr>postId = i, tagId = tag_id tag\<rparr>) ?tgs"
  note s1 = updatePost_replaces [OF assms(2)]
  have s2: "postsToTags ?s2 = filter (\<lambda>r. postId r \<noteq> i) (postsToTags ?s1) @ ?new"
    using updatePost_replaces(1) [OF assms(3)] s1(2) by simp
  have same: "postsToTags ?s2 = postsToTags ?s1"
    unfolding s2 unfolding s1(1) others_of_replaced ..
  have "filter (\<lambda>r. postId r = i \<and> tagId r = t) (postsToTags ?s2) =
      filter (\<lambda>r. tagId r = t) (filter (\<lambda>r. postId r = i) (postsToTags ?s2))"
    by (simp add: conj_commute)
  also have "\<dots> = filter (\<lambda>r. tagId r = t) ?new"
    unfolding s2 rows_of_replaced ..
  finally have "length (filter (\<lambda>r. postId r = i \<and> tagId r = t) (postsToTags ?s2)) =
      length (filter (\<lambda>x. tag_id x = t \<and> tag_id x \<in> set ids) (tagTable s))"
    by (simp add: filter_map comp_def conj_commute)
  with count_distinct_tag [OF assms(1), of t "set ids"] same show ?thesis by simp
qed

lemma updatePost_absent_row:
  assumes "fault e 0 = None" and "\<forall>p\<in>set (postTable s). post_id p \<noteq> i"
  shows "updatePost e i ttl cnt cat pub tagIds s =
    (\<lparr>data = None, errorCode = Some cannot_update_post\<rparr>, s)"
proof -
  from assms(2) have "filter (\<lambda>p. post_id p = i) (postTable s) = []"
    by (simp add: filter_empty_conv)
  then have "update_post s i ttl cnt (normalizeString e ttl) pub (slug_fn e ttl) cat = Inr ([], s)"
    by (rule update_post_absent)
  with assms(1) show ?thesis
    by (simp add: updatePost_def updatePost_try_def stmt_no_fault updatePost_errorCode_def)
qed

text \<open>
  Claim C10, as amended. When the update statement runs without a failure of the engine
  and no post row has the identifier, \<^verbatim>\<open>updatePost\<close> returns
  \<open>(null, cannot_update_post)\<close> and the store is unchanged: the missing returned row
  is a \<^verbatim>\<open>TypeError\<close>, which has no \<^verbatim>\<open>code\<close> and so reaches the default of the
  \<^verbatim>\<open>switch\<close>.
\<close>

theorem updatePost_no_row:
  assumes "fault e 0 = None" and "\<forall>p\<in>set (postTable s). post_id p \<noteq> i"
  shows "updatePost e i ttl cnt cat pub tagIds s =
    (\<lparr>data = None, errorCode = Some cannot_update_post\<rparr>, s)"
  using assms by (rule updatePost_absent_row)

text \<open>
  Claim C10 as stated covers every identifier that matches no post row, also one the
  store rejects as malformed. There the update statement raises SQLSTATE \<^verbatim>\<open>22P02\<close>,
  and \<^verbatim>\<open>case "22P02"\<close> of the \<^verbatim>\<open>switch\<close> (lines 283-286) makes the result
  \<open>category_not_found\<close>, not \<open>cannot_update_post\<close>.
\<close>

theorem updatePost_no_row_rejected_id:
  "filter (\<lambda>p. post_id p = ''not-an-id'') (postTable example_db) = []
   \<and> updatePost (example_env\<lparr>fault := fault_at 0 (Some ''22P02'')\<rparr>) ''not-an-id'' ''Other''
       ''x'' None (Some True) None example_db =
     (\<lparr>data = None, errorCode = Some category_not_found\<rparr>, example_db)
   \<and> category_not_found \<noteq> cannot_update_post"
  by (simp add: updatePost_def updatePost_try_def updatePost_errorCode_def stmt_def
      fault_at_def example_db_def)

section \<open>Creating and deleting\<close>

lemma insert_post_Inr:
  assumes "insert_post e s ttl cnt nt pub sl cat = Inr (rows, s')"
  shows "\<exists>post. rows = [post] \<and> categoryId post = cat \<and> post_id post = new_id e"
    and "postsToTags s' = postsToTags s" and "tagTable s' = tagTable s"
    and "categoryTable s' = categoryTable s"
  using assms
  by (auto simp add: insert_post_def Let_def returned_post.defs split: if_splits)

lemma createPost_category_state: "snd (createPost_category e post c s) = s"
  by (simp add: createPost_category_def split: sum.splits list.splits)

lemma createPost_category_data:
  "fst (createPost_category e post c s) = Inr d \<Longrightarrow> tags d = None \<and> category d \<noteq> None"
  by (auto simp add: createPost_category_def tags_post_with category_post_with
      split: sum.splits list.splits)

text \<open>
  Claim C2. A \<^verbatim>\<open>createPost\<close> call with a category identifier (a non-empty string, which
  is what JavaScript's test \<^verbatim>\<open>if (post.categoryId)\<close> takes for one) inserts no
  association row, whatever \<^verbatim>\<open>tagIds\<close> holds; when it succeeds, its data carries the
  category and has no \<^verbatim>\<open>tags\<close>.
\<close>

theorem createPost_with_category:
  assumes "cat = Some c" and "c \<noteq> []"
  shows "postsToTags (snd (createPost e ttl cnt cat pub tagIds s)) = postsToTags s \<and>
         (\<forall>d. data (fst (createPost e ttl cnt cat pub tagIds s)) = Some d \<longrightarrow>
              categoryId d = Some c \<and> category d \<noteq> None \<and> tags d = None)"
proof (cases "stmt e 0 (insert_post e s ttl cnt (normalizeString e ttl) pub (slug_fn e ttl) cat)")
  case (Inl t)
  then show ?thesis by (simp add: createPost_def createPost_try_def)
next
  case (Inr x)
  obtain rows s1 where x: "x = (rows, s1)" by (cases x)
  from stmt_Inr [OF Inr] x
  have ins: "insert_post e s ttl cnt (normalizeString e ttl) pub (slug_fn e ttl) cat = Inr (rows, s1)"
    by simp
  from insert_post_Inr [OF ins] obtain post where rows: "rows = [post]"
    and c: "categoryId post = cat" and a: "postsToTags s1 = postsToTags s" by blast
  have body: "createPost_try e ttl cnt cat pub tagIds s = createPost_category e post c s1"
    using Inr x rows c assms by (simp add: createPost_try_def)
  obtain r s2 where r: "createPost_category e post c s1 = (r, s2)"
    by (cases "createPost_category e post c s1")
  with createPost_category_state [of e post c s1] have s2: "s2 = s1" by simp
  show ?thesis
  proof (cases r)
    case (Inl t)
    with body r s2 a show ?thesis by (simp add: createPost_def)
  next
    case (Inr d)
    with createPost_category_data [of e post c s1 d] r
    have "tags d = None \<and> category d \<noteq> None" by simp
    moreover have "categoryId d = Some c"
      using Inr r c assms
      by (cases post) (auto simp add: createPost_category_def post_with_def returned_post.defs
          post_data.defs split: sum.splits list.splits)
    ultimately show ?thesis using body r s2 a Inr by (simp add: createPost_def)
  qed
qed

text \<open>
  Claim C6. After a successful \<^verbatim>\<open>deletePost\<close> of a post, no association row and no
  post row with that post's identifier remains, and the association rows of other posts
  are as before.
\<close>

theorem deletePost_cascade:
  assumes "errorCode (fst (deletePost e i s)) = None"
  shows "filter (\<lambda>r. postId r = i) (postsToTags (snd (deletePost e i s))) = [] \<and>
         filter (\<lambda>p. post_id p = i) (postTable (snd (deletePost e i s))) = [] \<and>
         filter (\<lambda>r. postId r \<noteq> i) (postsToTags (snd (deletePost e i s))) =
           filter (\<lambda>r. postId r \<noteq> i) (postsToTags s)"
proof (cases "fault e 0")
  case (Some t)
  with assms show ?thesis by (simp add: deletePost_def deletePost_try_def stmt_def)
next
  case None
  show ?thesis
  proof (cases "filter (\<lambda>p. post_id p = i) (postTable s) = []")
    case True
    with None assms show ?thesis
      by (simp add: deletePost_def deletePost_try_def stmt_def delete_post_def)
  next
    case False
    then obtain p ps where "filter (\<lambda>p. post_id p = i) (postTable s) = p # ps"
      by (cases "filter (\<lambda>p. post_id p = i) (postTable s)") auto
    with None show ?thesis
      by (simp add: deletePost_def deletePost_try_def stmt_def delete_post_def filter_empty_conv)
  qed
qed

section \<open>Failures\<close>

lemma associate_tags_postTable: "postTable (snd (associate_tags e post ids s)) = postTable s"
  by (simp add: associate_tags_def insert_posts_to_tags_def stmt_def
      split: sum.splits option.splits)

lemma createPost_tags_postTable: "postTable (snd (createPost_tags e post ids s)) = postTable s"
proof (cases "associate_tags e post ids s")
  case (Pair r s')
  with associate_tags_postTable [of e post ids s] show ?thesis
    by (simp add: createPost_tags_def split: sum.splits)
qed

lemma updatePost_tags_postTable:
  "postTable (snd (updatePost_tags e post tagIds s)) = postTable s"
proof (cases tagIds)
  case None
  then show ?thesis by (simp add: updatePost_tags_def)
next
  case (Some ids)
  show ?thesis
  proof (cases "fault e 1")
    case None
    with Some
      associate_tags_postTable [of e post ids
        "s\<lparr>postsToTags := filter (\<lambda>r. postId r \<noteq> post_id post) (postsToTags s)\<rparr>"]
    show ?thesis by (simp add: updatePost_tags_def stmt_def delete_posts_to_tags_def)
  next
    case (Some t)
    with \<open>tagIds = Some ids\<close> show ?thesis by (simp add: updatePost_tags_def stmt_def)
  qed
qed

lemma createPost_postTable:
  assumes "stmt e 0 (insert_post e s ttl cnt (normalizeString e ttl) pub (slug_fn e ttl) cat) =
    Inr (rows, s1)"
  shows "postTable (snd (createPost e ttl cnt cat pub tagIds s)) = postTable s1"
proof -
  from stmt_Inr [OF assms] insert_post_Inr(1) obtain post where rows: "rows = [post]" by blast
  have "postTable (snd (createPost_try e ttl cnt cat pub tagIds s)) = postTable s1"
    using assms rows
    by (simp add: createPost_try_def createPost_category_state createPost_tags_postTable
        split: option.splits)
  then show ?thesis
    by (cases "createPost_try e ttl cnt cat pub tagIds s")
      (simp add: createPost_def split: sum.splits)
qed

lemma updatePost_postTable:
  assumes "stmt e 0 (update_post s i ttl cnt (normalizeString e ttl) pub (slug_fn e ttl) cat) =
    Inr (rows, s1)"
  shows "postTable (snd (updatePost e i ttl cnt cat pub tagIds s)) = postTable s1"
proof -
  have "postTable (snd (updatePost_try e i ttl cnt cat pub tagIds s)) = postTable s1"
  proof (cases rows)
    case Nil
    with assms show ?thesis by (simp add: updatePost_try_def)
  next
    case (Cons post rest)
    obtain r s2 where t: "updatePost_tags e post tagIds s1 = (r, s2)"
      by (cases "updatePost_tags e post tagIds s1")
    with updatePost_tags_postTable [of e post tagIds s1] have "postTable s2 = postTable s1"
      by simp
    with assms Cons t show ?thesis
      by (simp add: updatePost_try_def split: sum.splits)
  qed
  then show ?thesis
    by (cases "updatePost_try e i ttl cnt cat pub tagIds s")
      (simp add: updatePost_def split: sum.splits)
qed

lemmas store_defs = stmt_def select_post_by_id_def left_join_category_def select_tag_names_def
  select_category_name_def select_tags_in_def insert_posts_to_tags_def insert_post_def
  update_post_def delete_posts_to_tags_def delete_post_def find_many_def post_with_def
  returned_post.defs post_columns.defs post_data.defs listed_post.defs Let_def

lemmas repository_defs = getPostById_def getPostById_try_def getPostById_errorCode_def
  associate_tags_def createPost_def createPost_try_def createPost_category_def
  createPost_tags_def createPost_errorCode_def updatePost_def updatePost_try_def
  updatePost_tags_def updatePost_data_def updatePost_errorCode_def deletePost_def
  deletePost_try_def deletePost_errorCode_def getPosts_def

lemmas example_defs = example_env_def example_db_def fault_at_def

text \<open>
  Claim C3, as amended. When the statement on the post row itself fails (the insert of
  \<^verbatim>\<open>createPost\<close>, the update of \<^verbatim>\<open>updatePost\<close>), the call returns the error code of
  that failure and the store is unchanged; so it is when the update matches no row. In
  particular a category identifier that no category row has gives
  \<open>category_not_found\<close> and leaves no post row behind and no post row changed. Once
  that statement has succeeded, the post table it produced is the post table after the
  call, whatever a later statement does: nothing is rolled back.
\<close>

theorem post_statement_failure_keeps_store:
  "(\<forall>t. stmt e 0 (insert_post e s ttl cnt (normalizeString e ttl) pub (slug_fn e ttl) cat) = Inl t
        \<longrightarrow> createPost e ttl cnt cat pub tagIds s =
              (\<lparr>data = None, errorCode = Some (createPost_errorCode t)\<rparr>, s))
   \<and> (\<forall>t. stmt e 0 (update_post s i ttl cnt (normalizeString e ttl) pub (slug_fn e ttl) cat) = Inl t
        \<longrightarrow> updatePost e i ttl cnt cat pub tagIds' s =
              (\<lparr>data = None, errorCode = Some (updatePost_errorCode t)\<rparr>, s))
   \<and> (fault e 0 = None \<and> new_id e \<notin> post_id ` set (postTable s) \<and>
       normalizeString e ttl \<notin> normalizedTitle ` set (postTable s) \<and>
       c \<notin> category_id ` set (categoryTable s)
        \<longrightarrow> createPost e ttl cnt (Some c) pub tagIds s =
              (\<lparr>data = None, errorCode = Some category_not_found\<rparr>, s))
   \<and> (fault e 0 = None \<and> (\<exists>p\<in>set (postTable s). post_id p = i) \<and>
       normalizeString e ttl \<notin>
         normalizedTitle ` set (filter (\<lambda>p. post_id p \<noteq> i) (postTable s)) \<and>
       c \<notin> category_id ` set (categoryTable s)
        \<longrightarrow> updatePost e i ttl cnt (Some c) pub tagIds' s =
              (\<lparr>data = None, errorCode = Some category_not_found\<rparr>, s))
   \<and> (fault e 0 = None \<and> (\<forall>p\<in>set (postTable s). post_id p \<noteq> i)
        \<longrightarrow> updatePost e i ttl cnt cat pub tagIds' s =
              (\<lparr>data = None, errorCode = Some cannot_update_post\<rparr>, s))
   \<and> (\<forall>rows s1.
        stmt e 0 (insert_post e s ttl cnt (normalizeString e ttl) pub (slug_fn e ttl) cat) =
          Inr (rows, s1)
        \<longrightarrow> postTable (snd (createPost e ttl cnt cat pub tagIds s)) = postTable s1 \<and>
            length (postTable s1) = Suc (length (postTable s)))
   \<and> (\<forall>rows s1.
        stmt e 0 (update_post s i ttl cnt (normalizeString e ttl) pub (slug_fn e ttl) cat) =
          Inr (rows, s1)
        \<longrightarrow> postTable (snd (updatePost e i ttl cnt cat pub tagIds' s)) = postTable s1)"
proof -
  have create: "createPost e ttl cnt cat pub tagIds s =
      (\<lparr>data = None, errorCode = Some (createPost_errorCode t)\<rparr>, s)"
    if "stmt e 0 (insert_post e s ttl cnt (normalizeString e ttl) pub (slug_fn e ttl) cat) = Inl t"
    for t cat
    using that by (simp add: createPost_def createPost_try_def)
  have update: "updatePost e i ttl cnt cat pub tagIds' s =
      (\<lparr>data = None, errorCode = Some (updatePost_errorCode t)\<rparr>, s)"
    if "stmt e 0 (update_post s i ttl cnt (normalizeString e ttl) pub (slug_fn e ttl) cat) = Inl t"
    for t cat
    using that by (simp add: updatePost_def updatePost_try_def)
  have create_fk: "createPost e ttl cnt (Some c) pub tagIds s =
      (\<lparr>data = None, errorCode = Some category_not_found\<rparr>, s)"
    if "fault e 0 = None" "new_id e \<notin> post_id ` set (postTable s)"
      "normalizeString e ttl \<notin> normalizedTitle ` set (postTable s)"
      "c \<notin> category_id ` set (categoryTable s)"
  proof -
    have "stmt e 0 (insert_post e s ttl cnt (normalizeString e ttl) pub (slug_fn e ttl) (Some c)) =
        Inl (Thrown (Some ''23503''))"
      using that by (simp add: stmt_def insert_post_def)
    from create [OF this] show ?thesis by (simp add: createPost_errorCode_def)
  qed
  have update_fk: "updatePost e i ttl cnt (Some c) pub tagIds' s =
      (\<lparr>data = None, errorCode = Some category_not_found\<rparr>, s)"
    if "fault e 0 = None" "\<exists>p\<in>set (postTable s). post_id p = i"
      "normalizeString e ttl \<notin>
         normalizedTitle ` set (filter (\<lambda>p. post_id p \<noteq> i) (postTable s))"
      "c \<notin> category_id ` set (categoryTable s)"
  proof -
    from that(2) have "filter (\<lambda>p. post_id p = i) (postTable s) \<noteq> []"
      by (simp add: filter_empty_conv)
    then have "stmt e 0 (update_post s i ttl cnt (normalizeString e ttl) pub (slug_fn e ttl) (Some c)) =
        Inl (Thrown (Some ''23503''))"
      using that(1,3,4) by (simp add: stmt_def update_post_def)
    from update [OF this] show ?thesis by (simp add: updatePost_errorCode_def)
  qed
  have absent: "fault e 0 = None \<and> (\<forall>p\<in>set (postTable s). post_id p \<noteq> i)
        \<longrightarrow> updatePost e i ttl cnt cat pub tagIds' s =
              (\<lparr>data = None, errorCode = Some cannot_update_post\<rparr>, s)"
    using updatePost_absent_row [of e s i] by blast
  have created: "postTable (snd (createPost e ttl cnt cat pub tagIds s)) = postTable s1 \<and>
      length (postTable s1) = Suc (length (postTable s))"
    if ins: "stmt e 0 (insert_post e s ttl cnt (normalizeString e ttl) pub (slug_fn e ttl) cat) =
      Inr (rows, s1)" for rows s1
  proof -
    from stmt_Inr [OF ins] have "length (postTable s1) = Suc (length (postTable s))"
      by (auto simp add: insert_post_def Let_def split: if_splits)
    with createPost_postTable [OF ins] show ?thesis by simp
  qed
  have updated: "postTable (snd (updatePost e i ttl cnt cat pub tagIds' s)) = postTable s1"
    if "stmt e 0 (update_post s i ttl cnt (normalizeString e ttl) pub (slug_fn e ttl) cat) =
      Inr (rows, s1)" for rows s1
    using that by (rule updatePost_postTable)
  from create [of cat] update [of cat] create_fk update_fk absent created updated
  show ?thesis by blast
qed

text \<open>
  Claim C4, as amended. Whatever is thrown inside \<^verbatim>\<open>getPostById\<close>, \<^verbatim>\<open>createPost\<close>,
  \<^verbatim>\<open>updatePost\<close> or \<^verbatim>\<open>deletePost\<close> is caught there: the operation returns no data
  and an error code of its own closed set. \<^verbatim>\<open>getPosts\<close> catches nothing: a failure of
  its statement is what the caller receives.
\<close>

theorem failures_are_classified:
  "(\<forall>t. getPostById_try e i s = Inl t
        \<longrightarrow> getPostById e i s = \<lparr>data = None, errorCode = Some (getPostById_errorCode t)\<rparr> \<and>
            getPostById_errorCode t \<in> {post_not_found, cannot_get_post})
   \<and> (\<forall>t. fst (createPost_try e ttl cnt cat pub tagIds s) = Inl t
        \<longrightarrow> fst (createPost e ttl cnt cat pub tagIds s) =
              \<lparr>data = None, errorCode = Some (createPost_errorCode t)\<rparr> \<and>
            createPost_errorCode t \<in> {duplicate_post_title, category_not_found, cannot_create_post})
   \<and> (\<forall>t. fst (updatePost_try e i ttl cnt cat pub tagIds' s) = Inl t
        \<longrightarrow> fst (updatePost e i ttl cnt cat pub tagIds' s) =
              \<lparr>data = None, errorCode = Some (updatePost_errorCode t)\<rparr> \<and>
            updatePost_errorCode t \<in> {duplicate_post_title, category_not_found, cannot_update_post})
   \<and> (\<forall>t. fst (deletePost_try e i s) = Inl t
        \<longrightarrow> fst (deletePost e i s) = \<lparr>data = None, errorCode = Some (deletePost_errorCode t)\<rparr> \<and>
            deletePost_errorCode t \<in> {post_not_found, cannot_delete_post})
   \<and> (\<forall>t. fault e 0 = Some t \<longrightarrow> getPosts e s = Inl t)"
proof -
  have get: "\<forall>t. getPostById_try e i s = Inl t
        \<longrightarrow> getPostById e i s = \<lparr>data = None, errorCode = Some (getPostById_errorCode t)\<rparr> \<and>
            getPostById_errorCode t \<in> {post_not_found, cannot_get_post}"
    by (simp add: getPostById_def getPostById_errorCode_def)
  have create: "\<forall>t. fst (createPost_try e ttl cnt cat pub tagIds s) = Inl t
        \<longrightarrow> fst (createPost e ttl cnt cat pub tagIds s) =
              \<lparr>data = None, errorCode = Some (createPost_errorCode t)\<rparr> \<and>
            createPost_errorCode t \<in> {duplicate_post_title, category_not_found, cannot_create_post}"
    by (cases "createPost_try e ttl cnt cat pub tagIds s")
      (simp add: createPost_def createPost_errorCode_def)
  have update: "\<forall>t. fst (updatePost_try e i ttl cnt cat pub tagIds' s) = Inl t
        \<longrightarrow> fst (updatePost e i ttl cnt cat pub tagIds' s) =
              \<lparr>data = None, errorCode = Some (updatePost_errorCode t)\<rparr> \<and>
            updatePost_errorCode t \<in> {duplicate_post_title, category_not_found, cannot_update_post}"
    by (cases "updatePost_try e i ttl cnt cat pub tagIds' s")
      (simp add: updatePost_def updatePost_errorCode_def)
  have delete: "\<forall>t. fst (deletePost_try e i s) = Inl t
        \<longrightarrow> fst (deletePost e i s) = \<lparr>data = None, errorCode = Some (deletePost_errorCode t)\<rparr> \<and>
            deletePost_errorCode t \<in> {post_not_found, cannot_delete_post}"
    by (cases "deletePost_try e i s") (simp add: deletePost_def deletePost_errorCode_def)
  have list: "\<forall>t. fault e 0 = Some t \<longrightarrow> getPosts e s = Inl t"
    by (simp add: getPosts_def stmt_def)
  from get create update delete list show ?thesis by blast
qed

text \<open>
  Claim C4 as stated includes the listing of posts. There the raw failure of the engine
  crosses the repository boundary.
\<close>

theorem getPosts_failure_propagates:
  "getPosts (example_env\<lparr>fault := fault_at 0 (Some ''08006'')\<rparr>) example_db =
     Inl (Thrown (Some ''08006''))"
  by (simp add: getPosts_def stmt_def fault_at_def)

text \<open>
  Claim C3 as stated fails: the repository opens no transaction. A \<^verbatim>\<open>createPost\<close>
  whose association insert meets a lost connection returns \<open>cannot_create_post\<close> and
  leaves the new post row in the table; an \<^verbatim>\<open>updatePost\<close> with one unknown tag
  identifier returns \<open>cannot_update_post\<close> after the post's association rows have
  been deleted.
\<close>

theorem failed_calls_change_store:
  "errorCode (fst (createPost (example_env\<lparr>fault := fault_at 3 (Some ''08006'')\<rparr>)
       ''New'' ''x'' None None [''t1''] example_db)) = Some cannot_create_post
   \<and> map post_id (postTable (snd (createPost (example_env\<lparr>fault := fault_at 3 (Some ''08006'')\<rparr>)
       ''New'' ''x'' None None [''t1''] example_db))) = [''p1'', ''p2'']
   \<and> map post_id (postTable example_db) = [''p1'']
   \<and> errorCode (fst (updatePost example_env ''p1'' ''Hello World'' ''hi'' None (Some False)
       (Some [''t9'']) example_db)) = Some cannot_update_post
   \<and> postsToTags (snd (updatePost example_env ''p1'' ''Hello World'' ''hi'' None (Some False)
       (Some [''t9'']) example_db)) = []
   \<and> postsToTags example_db = [\<lparr>postId = ''p1'', tagId = ''t1''\<rparr>]"
  by (simp add: repository_defs store_defs example_defs)

text \<open>
  The data of a successful update of a post without a category never has \<^verbatim>\<open>tags\<close>.
\<close>

lemma updatePost_data_no_category:
  "categoryId post = None \<Longrightarrow> updatePost_data e post tgs s = Inr (post_with post None None)"
  by (simp add: updatePost_data_def)

lemma updatePost_no_category_tags:
  assumes "errorCode (fst (updatePost e i ttl cnt None pub tagIds s)) = None"
  shows "\<exists>d. data (fst (updatePost e i ttl cnt None pub tagIds s)) = Some d \<and> tags d = None"
proof -
  from updatePost_success [OF assms] obtain post rest s1 tgs d where
    u: "update_post s i ttl cnt (normalizeString e ttl) pub (slug_fn e ttl) None =
        Inr (post # rest, s1)"
    and d: "updatePost_data e post tgs (snd (updatePost e i ttl cnt None pub tagIds s)) = Inr d"
      "data (fst (updatePost e i ttl cnt None pub tagIds s)) = Some d" by blast
  from u have "categoryId post = None"
    by (auto simp add: update_post_def Let_def returned_post.defs split: if_splits)
  with d show ?thesis by (auto simp add: updatePost_data_no_category tags_post_with)
qed

text \<open>
  Claim C1 fails on the code. An update of a post without a category, with a tag that
  exists, succeeds and associates the tag, and the data it returns has no \<^verbatim>\<open>tags\<close>;
  the branch of a post with a category returns them.
\<close>

theorem updatePost_without_category_omits_tags:
  "updatePost example_env ''p1'' ''Hello World'' ''hi'' None (Some False) (Some [''t2''])
     example_db =
   (\<lparr>data = Some \<lparr>post_id = ''p1'', title = ''Hello World'', slug = ''Hello World'',
        content = ''hi'', published = Some False, createdAt = 1, updatedAt = 1,
        categoryId = None, category = None, tags = None\<rparr>,
     errorCode = None\<rparr>,
    example_db\<lparr>postsToTags := [\<lparr>postId = ''p1'', tagId = ''t2''\<rparr>]\<rparr>)"
  by (simp add: repository_defs store_defs example_defs)

text \<open>
  A creation without a category and with tag identifiers succeeds, and associates the
  identifiers that exist, when at least one of them exists; when none exists it fails
  after the post row has been inserted.
\<close>

lemma createPost_some_known_tag:
  assumes "fault e 0 = None" and "fault e 2 = None" and "fault e 3 = None"
    and "insert_post e s ttl cnt (normalizeString e ttl) pub (slug_fn e ttl) None = Inr (rows, s1)"
    and "filter (\<lambda>t. tag_id t \<in> set tagIds) (tagTable s) \<noteq> []"
  shows "errorCode (fst (createPost e ttl cnt None pub tagIds s)) = None"
    and "postsToTags (snd (createPost e ttl cnt None pub tagIds s)) =
       postsToTags s @ map (\<lambda>tag. \<lparr>postId = new_id e, tagId = tag_id tag\<rparr>)
         (filter (\<lambda>t. tag_id t \<in> set tagIds) (tagTable s))"
proof -
  from insert_post_Inr [OF assms(4)] obtain post where rows: "rows = [post]"
    and c: "categoryId post = None" and pid: "post_id post = new_id e"
    and a: "postsToTags s1 = postsToTags s" and tt: "tagTable s1 = tagTable s" by blast
  from assms(5) have ne: "tagIds \<noteq> []" by auto
  have assoc: "associate_tags e post tagIds s1 =
      (Inr (filter (\<lambda>t. tag_id t \<in> set tagIds) (tagTable s)),
       s1\<lparr>postsToTags := postsToTags s @ map (\<lambda>tag. \<lparr>postId = new_id e, tagId = tag_id tag\<rparr>)
         (filter (\<lambda>t. tag_id t \<in> set tagIds) (tagTable s))\<rparr>)"
    using assms(2,3,5) pid a tt
    by (simp add: associate_tags_def stmt_def select_tags_in_def insert_posts_to_tags_def)
  have body: "createPost_try e ttl cnt None pub tagIds s = createPost_tags e post tagIds s1"
    using assms(1,4) rows c by (simp add: createPost_try_def stmt_def)
  show "errorCode (fst (createPost e ttl cnt None pub tagIds s)) = None"
    using body assoc ne by (simp add: createPost_def createPost_tags_def)
  show "postsToTags (snd (createPost e ttl cnt None pub tagIds s)) =
       postsToTags s @ map (\<lambda>tag. \<lparr>postId = new_id e, tagId = tag_id tag\<rparr>)
         (filter (\<lambda>t. tag_id t \<in> set tagIds) (tagTable s))"
    using body assoc ne by (simp add: createPost_def createPost_tags_def)
qed

lemma createPost_no_known_tag:
  assumes "fault e 0 = None" and "fault e 2 = None"
    and "insert_post e s ttl cnt (normalizeString e ttl) pub (slug_fn e ttl) None = Inr (rows, s1)"
    and "tagIds \<noteq> []"
    and "filter (\<lambda>t. tag_id t \<in> set tagIds) (tagTable s) = []"
  shows "createPost e ttl cnt None pub tagIds s =
    (\<lparr>data = None, errorCode = Some cannot_create_post\<rparr>, s1)"
proof -
  from insert_post_Inr [OF assms(3)] obtain post where rows: "rows = [post]"
    and c: "categoryId post = None" and tt: "tagTable s1 = tagTable s" by blast
  have assoc: "associate_tags e post tagIds s1 = (Inl (Thrown None), s1)"
    using assms(2,5) tt by (simp add: associate_tags_def stmt_def select_tags_in_def)
  have body: "createPost_try e ttl cnt None pub tagIds s = createPost_tags e post tagIds s1"
    using assms(1,3) rows c by (simp add: createPost_try_def stmt_def)
  show ?thesis
    using body assoc assms(4)
    by (simp add: createPost_def createPost_tags_def createPost_errorCode_def)
qed

text \<open>
  Claim C8 fails on the code. A \<^verbatim>\<open>createPost\<close> without a category whose only tag
  identifier is unknown selects no tag, so \<^verbatim>\<open>values\<close> is given an empty array and
  throws: the call returns \<open>cannot_create_post\<close>, and the post row it has inserted
  stays.
\<close>

theorem createPost_unknown_tags_fails:
  "createPost example_env ''New'' ''x'' None None [''t9''] example_db =
   (\<lparr>data = None, errorCode = Some cannot_create_post\<rparr>,
    example_db\<lparr>postTable := postTable example_db @
      [\<lparr>post_id = ''p2'', title = ''New'', slug = ''New'', content = ''x'',
        published = Some False, createdAt = 7, updatedAt = 7, categoryId = None,
        normalizedTitle = ''New''\<rparr>]\<rparr>)"
  by (simp add: repository_defs store_defs example_defs)

section \<open>Instances on the example store\<close>

theorem createPost_with_category_witness:
  "errorCode (fst (createPost example_env ''New'' ''x'' (Some ''c1'') None [''t1'', ''t2'']
       example_db)) = None
   \<and> postsToTags (snd (createPost example_env ''New'' ''x'' (Some ''c1'') None [''t1'', ''t2'']
       example_db)) = postsToTags example_db
   \<and> (\<exists>d. data (fst (createPost example_env ''New'' ''x'' (Some ''c1'') None [''t1'', ''t2'']
       example_db)) = Some d \<and> categoryId d = Some ''c1'' \<and> tags d = None)"
proof -
  let ?r = "createPost example_env ''New'' ''x'' (Some ''c1'') None [''t1'', ''t2''] example_db"
  have ok: "errorCode (fst ?r) = None"
    by (simp add: repository_defs store_defs example_defs)
  have d: "\<exists>d. data (fst ?r) = Some d"
    by (simp add: repository_defs store_defs example_defs)
  have c: "''c1'' \<noteq> []" by simp
  from createPost_with_category [OF refl c, of example_env "''New''" "''x''" None
      "[''t1'', ''t2'']" example_db] ok d
  show ?thesis by blast
qed

theorem deletePost_cascade_witness:
  "errorCode (fst (deletePost example_env ''p1'' example_db)) = None
   \<and> filter (\<lambda>r. postId r = ''p1'') (postsToTags example_db) =
       [\<lparr>postId = ''p1'', tagId = ''t1''\<rparr>]
   \<and> filter (\<lambda>r. postId r = ''p1'') (postsToTags (snd (deletePost example_env ''p1'' example_db)))
       = []"
proof -
  have ok: "errorCode (fst (deletePost example_env ''p1'' example_db)) = None"
    by (simp add: repository_defs store_defs example_defs)
  have before: "filter (\<lambda>r. postId r = ''p1'') (postsToTags example_db) =
       [\<lparr>postId = ''p1'', tagId = ''t1''\<rparr>]"
    by (simp add: example_db_def)
  from deletePost_cascade [OF ok] ok before show ?thesis by blast
qed

theorem updatePost_tag_set_witness:
  "errorCode (fst (updatePost example_env ''p1'' ''Hello World'' ''hi'' (Some ''c1'') (Some True)
       (Some [''t2'', ''t9'']) example_db)) = None
   \<and> {tagId r | r. r \<in> set (postsToTags (snd (updatePost example_env ''p1'' ''Hello World'' ''hi''
       (Some ''c1'') (Some True) (Some [''t2'', ''t9'']) example_db))) \<and> postId r = ''p1''} = {''t2''}
   \<and> errorCode (fst (updatePost example_env ''p1'' ''Hello World'' ''hi'' None (Some True)
       (Some []) example_db)) = None
   \<and> {tagId r | r. r \<in> set (postsToTags (snd (updatePost example_env ''p1'' ''Hello World'' ''hi''
       None (Some True) (Some []) example_db))) \<and> postId r = ''p1''} = {}
   \<and> errorCode (fst (updatePost example_env ''p1'' ''Hello World'' ''hi'' None (Some True)
       None example_db)) = None
   \<and> postsToTags (snd (updatePost example_env ''p1'' ''Hello World'' ''hi'' None (Some True)
       None example_db)) = postsToTags example_db"
proof -
  let ?a = "updatePost example_env ''p1'' ''Hello World'' ''hi'' (Some ''c1'') (Some True)
       (Some [''t2'', ''t9'']) example_db"
  let ?b = "updatePost example_env ''p1'' ''Hello World'' ''hi'' None (Some True)
       (Some []) example_db"
  let ?c = "updatePost example_env ''p1'' ''Hello World'' ''hi'' None (Some True)
       None example_db"
  have a: "errorCode (fst ?a) = None"
    by (simp add: repository_defs store_defs example_defs)
  have b: "errorCode (fst ?b) = None"
    by (simp add: repository_defs store_defs example_defs)
  have c: "errorCode (fst ?c) = None"
    by (simp add: repository_defs store_defs example_defs)
  have existing: "set [''t2'', ''t9''] \<inter> tag_id ` set (tagTable example_db) = {''t2''}"
    by (simp add: example_db_def)
  from updatePost_tag_set [OF a] existing
  have ra: "{tagId r | r. r \<in> set (postsToTags (snd ?a)) \<and> postId r = ''p1''} = {''t2''}"
    by simp
  from updatePost_tag_set [OF b]
  have rb: "{tagId r | r. r \<in> set (postsToTags (snd ?b)) \<and> postId r = ''p1''} = {}"
    by simp
  from updatePost_tag_set [OF c]
  have rc: "postsToTags (snd ?c) = postsToTags example_db"
    by simp
  from a b c ra rb rc show ?thesis by blast
qed

lemma example_update_state:
  "snd (updatePost example_env ''p1'' ''Hello World'' ''hi'' None (Some False)
       (Some [''t2'', ''t9'', ''t2'']) example_db) =
   example_db\<lparr>postsToTags := [\<lparr>postId = ''p1'', tagId = ''t2''\<rparr>]\<rparr>"
  by (simp add: repository_defs store_defs example_defs)

theorem updatePost_twice_witness:
  "distinct (map tag_id (tagTable example_db))
   \<and> errorCode (fst (updatePost example_env ''p1'' ''Hello World'' ''hi'' None (Some False)
       (Some [''t2'', ''t9'', ''t2'']) example_db)) = None
   \<and> errorCode (fst (updatePost example_env ''p1'' ''Hello World'' ''hi'' None (Some False)
       (Some [''t2'', ''t9'', ''t2''])
       (snd (updatePost example_env ''p1'' ''Hello World'' ''hi'' None (Some False)
          (Some [''t2'', ''t9'', ''t2'']) example_db)))) = None
   \<and> length (filter (\<lambda>r. postId r = ''p1'' \<and> tagId r = ''t2'')
       (postsToTags (snd (updatePost example_env ''p1'' ''Hello World'' ''hi'' None (Some False)
          (Some [''t2'', ''t9'', ''t2''])
          (snd (updatePost example_env ''p1'' ''Hello World'' ''hi'' None (Some False)
             (Some [''t2'', ''t9'', ''t2'']) example_db)))))) = 1
   \<and> length (filter (\<lambda>r. postId r = ''p1'' \<and> tagId r = ''t1'')
       (postsToTags (snd (updatePost example_env ''p1'' ''Hello World'' ''hi'' None (Some False)
          (Some [''t2'', ''t9'', ''t2''])
          (snd (updatePost example_env ''p1'' ''Hello World'' ''hi'' None (Some False)
             (Some [''t2'', ''t9'', ''t2'']) example_db)))))) = 0"
proof -
  let ?s1 = "snd (updatePost example_env ''p1'' ''Hello World'' ''hi'' None (Some False)
       (Some [''t2'', ''t9'', ''t2'']) example_db)"
  have d: "distinct (map tag_id (tagTable example_db))"
    by (simp add: example_db_def)
  have first: "errorCode (fst (updatePost example_env ''p1'' ''Hello World'' ''hi'' None
       (Some False) (Some [''t2'', ''t9'', ''t2'']) example_db)) = None"
    by (simp add: repository_defs store_defs example_defs)
  have second: "errorCode (fst (updatePost example_env ''p1'' ''Hello World'' ''hi'' None
       (Some False) (Some [''t2'', ''t9'', ''t2'']) ?s1)) = None"
    unfolding example_update_state
    by (simp add: repository_defs store_defs example_defs)
  have t2: "''t2'' \<in> set [''t2'', ''t9'', ''t2''] \<and> ''t2'' \<in> tag_id ` set (tagTable example_db)"
    by (simp add: example_db_def)
  have t1: "\<not> (''t1'' \<in> set [''t2'', ''t9'', ''t2''] \<and> ''t1'' \<in> tag_id ` set (tagTable example_db))"
    by simp
  from updatePost_twice [OF d first second, of "''t2''", THEN conjunct1] t2
  have one: "length (filter (\<lambda>r. postId r = ''p1'' \<and> tagId r = ''t2'')
       (postsToTags (snd (updatePost example_env ''p1'' ''Hello World'' ''hi'' None (Some False)
          (Some [''t2'', ''t9'', ''t2'']) ?s1)))) = 1"
    by simp
  from updatePost_twice [OF d first second, of "''t1''", THEN conjunct1] t1
  have none: "length (filter (\<lambda>r. postId r = ''p1'' \<and> tagId r = ''t1'')
       (postsToTags (snd (updatePost example_env ''p1'' ''Hello World'' ''hi'' None (Some False)
          (Some [''t2'', ''t9'', ''t2'']) ?s1)))) = 0"
    by simp
  from d first second one none show ?thesis by blast
qed

theorem updatePost_no_row_witness:
  "fault example_env 0 = None
   \<and> filter (\<lambda>p. post_id p = ''p9'') (postTable example_db) = []
   \<and> updatePost example_env ''p9'' ''Other'' ''x'' (Some ''c1'') (Some True) (Some [''t1''])
       example_db = (\<lparr>data = None, errorCode = Some cannot_update_post\<rparr>, example_db)"
proof -
  have f: "fault example_env 0 = None" by (simp add: example_env_def)
  have a: "\<forall>p\<in>set (postTable example_db). post_id p \<noteq> ''p9''"
    by (simp add: example_db_def)
  have a': "filter (\<lambda>p. post_id p = ''p9'') (postTable example_db) = []"
    by (simp add: example_db_def)
  from updatePost_no_row [OF f a] f a' show ?thesis by blast
qed

theorem post_statement_failure_keeps_store_witness:
  "createPost example_env ''Hello World'' ''x'' None None [''t1''] example_db =
     (\<lparr>data = None, errorCode = Some duplicate_post_title\<rparr>, example_db)
   \<and> updatePost (example_env\<lparr>fault := fault_at 0 (Some ''08006'')\<rparr>) ''p1'' ''Other'' ''x''
       None (Some True) (Some []) example_db =
     (\<lparr>data = None, errorCode = Some cannot_update_post\<rparr>, example_db)
   \<and> createPost example_env ''New'' ''x'' (Some ''c9'') None [''t1''] example_db =
     (\<lparr>data = None, errorCode = Some category_not_found\<rparr>, example_db)
   \<and> updatePost example_env ''p1'' ''Other'' ''x'' (Some ''c9'') (Some True) (Some []) example_db =
     (\<lparr>data = None, errorCode = Some category_not_found\<rparr>, example_db)
   \<and> updatePost example_env ''p9'' ''Other'' ''x'' None (Some True) (Some []) example_db =
     (\<lparr>data = None, errorCode = Some cannot_update_post\<rparr>, example_db)
   \<and> length (postTable (snd (createPost (example_env\<lparr>fault := fault_at 3 (Some ''08006'')\<rparr>)
       ''New'' ''x'' None None [''t1''] example_db))) = 2
   \<and> map title (postTable (snd (updatePost example_env ''p1'' ''Other'' ''x'' None (Some True)
       (Some [''t9'']) example_db))) = [''Other'']"
proof -
  let ?failing = "example_env\<lparr>fault := fault_at 0 (Some ''08006'')\<rparr>"
  let ?late = "example_env\<lparr>fault := fault_at 3 (Some ''08006'')\<rparr>"
  let ?new = "\<lparr>post_id = ''p2'', title = ''New'', slug = ''New'', content = ''x'',
      published = Some False, createdAt = 7, updatedAt = 7, categoryId = None,
      normalizedTitle = ''New''\<rparr>"
  let ?other = "\<lparr>post_id = ''p1'', title = ''Other'', slug = ''Other'', content = ''x'',
      published = Some True, createdAt = 1, updatedAt = 1, categoryId = None,
      normalizedTitle = ''Other''\<rparr>"
  have h1: "stmt example_env 0 (insert_post example_env example_db ''Hello World'' ''x''
      (normalizeString example_env ''Hello World'') None (slug_fn example_env ''Hello World'') None)
      = Inl (Thrown (Some ''23505''))"
    by (simp add: store_defs example_defs)
  have h2: "stmt ?failing 0 (update_post example_db ''p1'' ''Other'' ''x''
      (normalizeString ?failing ''Other'') (Some True) (slug_fn ?failing ''Other'') None)
      = Inl (Thrown (Some ''08006''))"
    by (simp add: stmt_def fault_at_def)
  have h3: "fault example_env 0 = None \<and> new_id example_env \<notin> post_id ` set (postTable example_db) \<and>
       normalizeString example_env ''New'' \<notin> normalizedTitle ` set (postTable example_db) \<and>
       ''c9'' \<notin> category_id ` set (categoryTable example_db)"
    by (simp add: example_defs)
  have h4: "fault example_env 0 = None \<and> (\<exists>p\<in>set (postTable example_db). post_id p = ''p1'') \<and>
       normalizeString example_env ''Other'' \<notin>
         normalizedTitle ` set (filter (\<lambda>p. post_id p \<noteq> ''p1'') (postTable example_db)) \<and>
       ''c9'' \<notin> category_id ` set (categoryTable example_db)"
    by (simp add: example_defs)
  have h5: "fault example_env 0 = None \<and> (\<forall>p\<in>set (postTable example_db). post_id p \<noteq> ''p9'')"
    by (simp add: example_defs)
  have h6: "stmt ?late 0 (insert_post ?late example_db ''New'' ''x''
      (normalizeString ?late ''New'') None (slug_fn ?late ''New'') None)
      = Inr ([returned_post.truncate ?new],
             example_db\<lparr>postTable := postTable example_db @ [?new]\<rparr>)"
    by (simp add: store_defs example_defs)
  have h7: "stmt example_env 0 (update_post example_db ''p1'' ''Other'' ''x''
      (normalizeString example_env ''Other'') (Some True) (slug_fn example_env ''Other'') None)
      = Inr ([returned_post.truncate ?other], example_db\<lparr>postTable := [?other]\<rparr>)"
    by (simp add: store_defs example_defs)
  have c1: "createPost example_env ''Hello World'' ''x'' None None [''t1''] example_db =
     (\<lparr>data = None, errorCode = Some duplicate_post_title\<rparr>, example_db)"
    using post_statement_failure_keeps_store [where e = example_env and s = example_db
        and ttl = "''Hello World''" and cnt = "''x''" and pub = None and cat = None
        and tagIds = "[''t1'']"] h1
    by (simp add: createPost_errorCode_def)
  have c2: "updatePost ?failing ''p1'' ''Other'' ''x'' None (Some True) (Some []) example_db =
     (\<lparr>data = None, errorCode = Some cannot_update_post\<rparr>, example_db)"
    using post_statement_failure_keeps_store [where e = ?failing and s = example_db
        and ttl = "''Other''" and cnt = "''x''" and pub = "Some True" and cat = None
        and i = "''p1''" and tagIds' = "Some []"] h2
    by (simp add: updatePost_errorCode_def)
  have c3: "createPost example_env ''New'' ''x'' (Some ''c9'') None [''t1''] example_db =
     (\<lparr>data = None, errorCode = Some category_not_found\<rparr>, example_db)"
    using post_statement_failure_keeps_store [where e = example_env and s = example_db
        and ttl = "''New''" and cnt = "''x''" and pub = None and c = "''c9''"
        and tagIds = "[''t1'']"] h3
    by blast
  have c4: "updatePost example_env ''p1'' ''Other'' ''x'' (Some ''c9'') (Some True) (Some [])
       example_db = (\<lparr>data = None, errorCode = Some category_not_found\<rparr>, example_db)"
    using post_statement_failure_keeps_store [where e = example_env and s = example_db
        and ttl = "''Other''" and cnt = "''x''" and pub = "Some True" and c = "''c9''"
        and i = "''p1''" and tagIds' = "Some []"] h4
    by blast
  have c5: "updatePost example_env ''p9'' ''Other'' ''x'' None (Some True) (Some []) example_db =
     (\<lparr>data = None, errorCode = Some cannot_update_post\<rparr>, example_db)"
    using post_statement_failure_keeps_store [where e = example_env and s = example_db
        and ttl = "''Other''" and cnt = "''x''" and pub = "Some True" and cat = None
        and i = "''p9''" and tagIds' = "Some []"] h5
    by blast
  have "postTable (snd (createPost ?late ''New'' ''x'' None None [''t1''] example_db)) =
      postTable (example_db\<lparr>postTable := postTable example_db @ [?new]\<rparr>)"
    using post_statement_failure_keeps_store [where e = ?late and s = example_db
        and ttl = "''New''" and cnt = "''x''" and pub = None and cat = None
        and tagIds = "[''t1'']"] h6
    by blast
  then have c6: "length (postTable (snd (createPost ?late ''New'' ''x'' None None [''t1'']
      example_db))) = 2"
    by (simp add: example_db_def)
  have "postTable (snd (updatePost example_env ''p1'' ''Other'' ''x'' None (Some True)
      (Some [''t9'']) example_db)) = postTable (example_db\<lparr>postTable := [?other]\<rparr>)"
    using post_statement_failure_keeps_store [where e = example_env and s = example_db
        and ttl = "''Other''" and cnt = "''x''" and pub = "Some True" and cat = None
        and i = "''p1''" and tagIds' = "Some [''t9'']"] h7
    by blast
  then have c7: "map title (postTable (snd (updatePost example_env ''p1'' ''Other'' ''x'' None
      (Some True) (Some [''t9'']) example_db))) = [''Other'']"
    by simp
  from c1 c2 c3 c4 c5 c6 c7 show ?thesis by blast
qed

theorem failures_are_classified_witness:
  "getPostById (example_env\<lparr>fault := fault_at 0 (Some ''08006'')\<rparr>) ''p1'' example_db =
     \<lparr>data = None, errorCode = Some cannot_get_post\<rparr>
   \<and> fst (createPost (example_env\<lparr>fault := fault_at 0 (Some ''08006'')\<rparr>) ''New'' ''x'' None None
       [] example_db) = \<lparr>data = None, errorCode = Some cannot_create_post\<rparr>
   \<and> fst (updatePost (example_env\<lparr>fault := fault_at 0 (Some ''08006'')\<rparr>) ''p1'' ''New'' ''x''
       None None None example_db) = \<lparr>data = None, errorCode = Some cannot_update_post\<rparr>
   \<and> fst (deletePost (example_env\<lparr>fault := fault_at 0 (Some ''08006'')\<rparr>) ''p1'' example_db) =
     \<lparr>data = None, errorCode = Some cannot_delete_post\<rparr>
   \<and> getPosts (example_env\<lparr>fault := fault_at 0 (Some ''08006'')\<rparr>) example_db =
     Inl (Thrown (Some ''08006''))"
proof -
  let ?e = "example_env\<lparr>fault := fault_at 0 (Some ''08006'')\<rparr>"
  let ?t = "Thrown (Some ''08006'')"
  have f: "fault ?e 0 = Some ?t" by (simp add: fault_at_def)
  have g: "getPostById_try ?e ''p1'' example_db = Inl ?t"
    by (simp add: getPostById_try_def stmt_def fault_at_def)
  have c: "fst (createPost_try ?e ''New'' ''x'' None None [] example_db) = Inl ?t"
    by (simp add: createPost_try_def stmt_def fault_at_def)
  have u: "fst (updatePost_try ?e ''p1'' ''New'' ''x'' None None None example_db) = Inl ?t"
    by (simp add: updatePost_try_def stmt_def fault_at_def)
  have d: "fst (deletePost_try ?e ''p1'' example_db) = Inl ?t"
    by (simp add: deletePost_try_def stmt_def fault_at_def)
  note all = failures_are_classified [where e = ?e and i = "''p1''" and s = example_db
      and ttl = "''New''" and cnt = "''x''" and cat = None and pub = None and tagIds = "[]"
      and tagIds' = None]
  have rg: "getPostById ?e ''p1'' example_db =
      \<lparr>data = None, errorCode = Some (getPostById_errorCode ?t)\<rparr>"
    using all g by blast
  have rc: "fst (createPost ?e ''New'' ''x'' None None [] example_db) =
      \<lparr>data = None, errorCode = Some (createPost_errorCode ?t)\<rparr>"
    using all c by blast
  have ru: "fst (updatePost ?e ''p1'' ''New'' ''x'' None None None example_db) =
      \<lparr>data = None, errorCode = Some (updatePost_errorCode ?t)\<rparr>"
    using all u by blast
  have rd: "fst (deletePost ?e ''p1'' example_db) =
      \<lparr>data = None, errorCode = Some (deletePost_errorCode ?t)\<rparr>"
    using all d by blast
  have rl: "getPosts ?e example_db = Inl ?t"
    using all f by blast
  from rg rc ru rd rl show ?thesis
    by (simp add: getPostById_errorCode_def createPost_errorCode_def updatePost_errorCode_def
        deletePost_errorCode_def)
qed

end
